theory Spec2Isabelle
  imports Complex_Main "HOL-Library.Sublist" "HOL-Library.AList"
begin


section \<open>Strings and regular expressions of the source\<close>

text \<open>
  JavaScript strings are modelled as Isabelle strings. The model covers ASCII text: a
  character is one byte, \<open>toLowerCase\<close> maps \<open>A\<close>..\<open>Z\<close> to \<open>a\<close>..\<open>z\<close> and leaves every other
  byte alone, and \<open>trim\<close> strips the ASCII white space characters. JavaScript numbers are
  modelled as the real numbers they denote.
\<close>

definition toLowerCaseChar :: "char \<Rightarrow> char" where
  "toLowerCaseChar c =
     (let n = (of_char c :: nat) in if 65 \<le> n \<and> n \<le> 90 then char_of (n + 32) else c)"

definition toLowerCase :: "string \<Rightarrow> string" where
  "toLowerCase s = map toLowerCaseChar s"

text \<open>\<open>s.includes(sub)\<close>: \<open>sub\<close> occurs in \<open>s\<close> as a contiguous substring.\<close>

fun str_includes :: "string \<Rightarrow> string \<Rightarrow> bool" where
  "str_includes [] sub = (sub = [])"
| "str_includes (c # cs) sub = (prefix sub (c # cs) \<or> str_includes cs sub)"

text \<open>
  \<open>/a|b|c/.test(s)\<close> for a regular expression that is an alternation of literal words:
  one of the words occurs in \<open>s\<close>.
\<close>

definition regexTest :: "string list \<Rightarrow> string \<Rightarrow> bool" where
  "regexTest alternatives s = list_ex (str_includes s) alternatives"

definition isWhiteSpace :: "char \<Rightarrow> bool" where
  "isWhiteSpace c = (let n = (of_char c :: nat) in n = 32 \<or> (9 \<le> n \<and> n \<le> 13))"

definition trim :: "string \<Rightarrow> string" where
  "trim s = rev (dropWhile isWhiteSpace (rev (dropWhile isWhiteSpace s)))"

text \<open>The decimal numeral that a template literal prints for a count.\<close>

fun showNat :: "nat \<Rightarrow> string" where
  "showNat n =
     (if n < 10 then [char_of (48 + n)]
      else showNat (n div 10) @ [char_of (48 + n mod 10)])"

declare showNat.simps [simp del]

section \<open>Intent classification data (types/index.ts)\<close>

datatype AgentType = Work | Personal

text \<open>
  The type of an intent is \<open>'work' | 'personal' | 'unclear'\<close>: an agent type, or unclear.
\<close>

datatype IntentType = Known AgentType | Unclear

datatype TaskPriority = Low | Medium | High | Urgent

datatype AgentRole =
  Orchestrator | Coding | Github | Slack | Email | Calendar | Research | Creative | Social | Chat

record Intent =
  type :: IntentType
  confidence :: real
  category :: string
  suggestedAgent :: AgentRole
  requiresHumanApproval :: bool
  reasoning :: string

record ExtractedTask =
  title :: string
  description :: string
  priority :: TaskPriority
  tools :: "string list"

record TaskClassification =
  intent :: Intent
  extractedTask :: ExtractedTask

section \<open>Heuristics of the orchestrator (core/samantha.ts)\<close>

definition detectCategory :: "string \<Rightarrow> string" where
  "detectCategory input =
     (let lowerInput = toLowerCase input in
      if regexTest [''github'', ''pr'', ''pull request'', ''merge'', ''commit'', ''branch'', ''repo'']
           lowerInput then ''github''
      else if regexTest [''code'', ''implement'', ''fix'', ''bug'', ''feature'', ''refactor'', ''debug'']
           lowerInput then ''coding''
      else if regexTest [''slack'', ''message'', ''channel'', ''team''] lowerInput then ''slack''
      else if regexTest [''email'', ''mail'', ''send'', ''reply''] lowerInput then ''email''
      else if regexTest [''calendar'', ''schedule'', ''meeting'', ''appointment''] lowerInput
           then ''calendar''
      else if regexTest [''search'', ''research'', ''find'', ''look up''] lowerInput
           then ''research''
      else if regexTest [''write'', ''create'', ''draft'', ''compose'', ''blog'', ''post''] lowerInput
           then ''creative''
      else if regexTest [''social'', ''twitter'', ''linkedin'', ''instagram'', ''post''] lowerInput
           then ''social''
      else ''chat'')"

text \<open>\<open>mapping[category] || 'chat'\<close> over the static table of the source.\<close>

definition categoryToAgent :: "string \<Rightarrow> AgentRole" where
  "categoryToAgent cat =
     (case map_of
        [(''github'', Github), (''coding'', Coding), (''slack'', Slack), (''email'', Email),
         (''calendar'', Calendar), (''research'', Research), (''creative'', Creative),
         (''social'', Social), (''chat'', Chat)] cat of
        Some role \<Rightarrow> role
      | None \<Rightarrow> Chat)"

text \<open>
  \<open>input.split(/[.!?]/)[0]\<close> is the text before the first full stop, exclamation mark or
  question mark; \<open>input.slice(0, 47)\<close> is the first 47 characters.
\<close>

definition extractTitle :: "string \<Rightarrow> string" where
  "extractTitle input =
     (let firstSentence = takeWhile (\<lambda>c. c \<notin> set ''.!?'') input in
      if length firstSentence \<le> 50 then firstSentence else take 47 input @ ''...'')"

definition detectPriority :: "string \<Rightarrow> TaskPriority" where
  "detectPriority input =
     (let lowerInput = toLowerCase input in
      if regexTest [''urgent'', ''asap'', ''immediately'', ''critical'', ''emergency''] lowerInput
        then Urgent
      else if regexTest [''important'', ''priority'', ''soon'', ''today''] lowerInput then High
      else if regexTest [''when you can'', ''whenever'', ''low priority''] lowerInput then Low
      else Medium)"

definition detectTools :: "string \<Rightarrow> string list" where
  "detectTools cat =
     (case map_of
        [(''github'', [''github_api'', ''git'']),
         (''coding'', [''file_system'', ''shell'', ''code_edit'']),
         (''slack'', [''slack_api'']),
         (''email'', [''gmail_api'']),
         (''calendar'', [''calendar_api'']),
         (''research'', [''web_search'']),
         (''creative'', [''text_generation'']),
         (''social'', [''social_media_api'']),
         (''chat'', [])] cat of
        Some ts \<Rightarrow> ts
      | None \<Rightarrow> [])"

definition workIndicators :: "string list" where
  "workIndicators =
     [''pr'', ''pull request'', ''github'', ''code'', ''deploy'', ''slack'',
      ''meeting'', ''standup'', ''sprint'', ''jira'', ''documentation'',
      ''api'', ''bug'', ''feature'', ''review'', ''merge'', ''commit'',
      ''branch'', ''production'', ''staging'', ''project'', ''deadline'',
      ''client'', ''team'', ''colleague'', ''work email'', ''work calendar'']"

definition personalIndicators :: "string list" where
  "personalIndicators =
     [''personal'', ''family'', ''friend'', ''mom'', ''dad'', ''vacation'',
      ''hobby'', ''health'', ''exercise'', ''recipe'', ''entertainment'',
      ''social media'', ''home'', ''shopping'', ''travel'', ''birthday'',
      ''anniversary'', ''personal calendar'', ''personal email'']"

text \<open>
  The two \<open>for\<close> loops of \<open>heuristicClassify\<close>: the score grows by one for every indicator
  that the lower-cased input includes.
\<close>

fun countIndicators :: "string \<Rightarrow> string list \<Rightarrow> nat \<Rightarrow> nat" where
  "countIndicators lowerInput [] score = score"
| "countIndicators lowerInput (indicator # rest) score =
     countIndicators lowerInput rest
       (if str_includes lowerInput indicator then score + 1 else score)"

definition heuristicReasoning :: "nat \<Rightarrow> nat \<Rightarrow> string" where
  "heuristicReasoning workScore personalScore =
     ''Heuristic classification: '' @ showNat workScore @ '' work indicators, ''
       @ showNat personalScore @ '' personal indicators''"

definition heuristicClassify :: "string \<Rightarrow> TaskClassification" where
  "heuristicClassify input =
     (let lowerInput = toLowerCase input;
          workScore = countIndicators lowerInput workIndicators 0;
          personalScore = countIndicators lowerInput personalIndicators 0;
          ty = (if workScore > personalScore then Known Work
                else if personalScore > workScore then Known Personal
                else Unclear);
          conf = \<bar>real workScore - real personalScore\<bar>
                   / real (max (workScore + personalScore) 1);
          cat = detectCategory input
      in \<lparr> intent =
             \<lparr> type = ty,
               confidence = min (9 / 10) (1 / 2 + conf * (2 / 5)),
               category = cat,
               suggestedAgent = categoryToAgent cat,
               requiresHumanApproval = False,
               reasoning = heuristicReasoning workScore personalScore \<rparr>,
           extractedTask =
             \<lparr> title = extractTitle input,
               description = input,
               priority = detectPriority input,
               tools = detectTools cat \<rparr> \<rparr>)"

section \<open>Explicit tags (utils/index.ts)\<close>

text \<open>
  The global regular expression \<open>/\[([^\]]+)\]/g\<close> scanned over a string from left to right.
  At an opening bracket the group is the longest run of characters other than \<open>]\<close>; there
  is a match when the run is non-empty and a closing bracket follows it, and the scan goes
  on behind that bracket. Anywhere else the character is no part of a match. The result
  lists, in order, the group of every match (\<open>Inl\<close>) and every unmatched character (\<open>Inr\<close>).
\<close>

function tagRegex :: "string \<Rightarrow> (string + char) list" where
  "tagRegex [] = []"
| "tagRegex (c # cs) =
     (let group = takeWhile (\<lambda>x. x \<noteq> CHR '']'') cs;
          behind = dropWhile (\<lambda>x. x \<noteq> CHR '']'') cs
      in if c = CHR ''['' \<and> group \<noteq> [] \<and> behind \<noteq> []
         then Inl group # tagRegex (tl behind)
         else Inr c # tagRegex cs)"
  by pat_completeness auto
termination
proof (relation "measure length")
  fix c :: char and cs group behind :: string
  assume "behind = dropWhile (\<lambda>x. x \<noteq> CHR '']'') cs"
  then have "length behind \<le> length cs"
    by (simp add: length_dropWhile_le)
  then have "length (tl behind) \<le> length cs"
    by simp
  then show "(tl behind, c # cs) \<in> measure length"
    by simp
qed simp_all

declare tagRegex.simps [simp del]

record ExtractedTags =
  tags :: "string list"
  cleanInput :: string

text \<open>
  The \<open>exec\<close> loop collects the lower-cased group of every match;
  \<open>input.replace(tagRegex, '')\<close> keeps the unmatched characters.
\<close>

definition extractTags :: "string \<Rightarrow> ExtractedTags" where
  "extractTags input =
     \<lparr> tags = [toLowerCase g. Inl g \<leftarrow> tagRegex input],
       cleanInput = trim [c. Inr c \<leftarrow> tagRegex input] \<rparr>"

definition hasExplicitAgentType :: "string \<Rightarrow> AgentType option" where
  "hasExplicitAgentType input =
     (let ts = tags (extractTags input) in
      if ''work'' \<in> set ts then Some Work
      else if ''personal'' \<in> set ts then Some Personal
      else None)"

section \<open>Messages, tools and completions (types/index.ts, models/client.ts)\<close>

text \<open>
  The values of tool call arguments (\<open>Record<string, unknown>\<close>) and of the results of
  \<open>JSON.parse\<close>: the JSON values, an object being the list of its members in order, and
  the number \<open>Infinity\<close>, which \<open>JSON.parse\<close> reads from a number text beyond the range of
  a double (\<open>1e999\<close>) and which no JSON text denotes: \<open>JSON.stringify\<close> writes it as
  \<open>null\<close>.
\<close>

datatype json =
  JNull | JBool bool | JNumber real | JInfinity | JString string
  | JArray "json list" | JObject "(string \<times> json) list"

text \<open>
  The built-in \<open>JSON\<close> object of the JavaScript runtime, a collaborator of the program:
  \<open>JSON.stringify\<close> on a JSON value, and \<open>JSON.parse\<close>, which throws a \<open>SyntaxError\<close> (\<open>Inl\<close>
  of its message) on a text that is no JSON.
\<close>

record JSON =
  JSON_stringify :: "json \<Rightarrow> string"
  JSON_parse :: "string \<Rightarrow> string + json"

datatype MessageRole = RoleUser | RoleAssistant | RoleSystem | RoleTool

text \<open>
  Where a field name recurs in several interfaces of the source, or is a keyword here, the
  records carry a short prefix: \<open>tc_\<close> for \<open>ToolCall\<close>, \<open>tr_\<close> for \<open>ToolResult\<close>, \<open>tool_\<close> for
  \<open>Tool\<close>, \<open>resp_\<close> for \<open>CompletionResponse\<close>, \<open>opt_\<close> for \<open>CompletionOptions\<close>, \<open>res_\<close> for
  \<open>TaskResult\<close>, \<open>task_\<close> for \<open>Task\<close>.
\<close>

record ToolCall =
  tc_id :: string
  tc_name :: string
  tc_arguments :: json

record ToolResult =
  toolCallId :: string
  success :: bool
  tr_output :: "string option"
  tr_error :: "string option"

text \<open>
  A message. Its \<open>id\<close> (a fresh uuid or a fixed label), its \<open>timestamp\<close> (the wall clock) and
  the optional \<open>agentId\<close> are left out: none of the functions below reads them.
\<close>

record Message =
  role :: MessageRole
  content :: string
  toolCalls :: "ToolCall list option"
  toolResults :: "ToolResult list option"

text \<open>
  The Zod schema a tool declares for its parameters, for the constructors the agents of
  this repository use.
\<close>

datatype ZodType =
  ZString | ZNumber | ZBoolean | ZEnum "string list" | ZArray ZodType
  | ZObject "(string \<times> ZodType) list" | ZOptional ZodType | ZDescribe ZodType string

text \<open>
  What a tool throws, or rejects its promise with: \<open>null\<close>, \<open>undefined\<close>, an \<open>Error\<close> (or
  another object whose \<open>message\<close> is a text) with its message, or a value whose property
  \<open>message\<close> is \<open>undefined\<close> (a text, a number, an object without message). An object
  whose \<open>message\<close> is no text is left out.
\<close>

datatype Thrown = ThrownNull | ThrownUndefined | ThrownError string | ThrownValue

text \<open>
  Everything outside the program (the providers' servers, the file system a tool works
  on) is a world of type \<open>'w\<close> that each call to a collaborator takes and returns. A
  collaborator that throws returns \<open>Inl\<close>: a tool of the value it throws, the model client
  of the message of the error it throws.
\<close>

record 'w Tool =
  tool_name :: string
  tool_description :: string
  tool_parameters :: ZodType
  tool_execute :: "json \<Rightarrow> 'w \<Rightarrow> (Thrown + ToolResult) \<times> 'w"

record 'w CompletionOptions =
  opt_model :: string
  opt_messages :: "Message list"
  opt_tools :: "'w Tool list option"
  opt_maxTokens :: "real option"
  opt_temperature :: "real option"

record Usage =
  promptTokens :: real
  completionTokens :: real
  totalTokens :: real

datatype FinishReason = Stop | Tool_calls | Length | Error

record CompletionResponse =
  resp_content :: string
  resp_toolCalls :: "ToolCall list option"
  usage :: "Usage option"
  finishReason :: FinishReason

section \<open>Classification (core/samantha.ts)\<close>

definition agentTypeName :: "AgentType \<Rightarrow> string" where
  "agentTypeName t = (case t of Work \<Rightarrow> ''work'' | Personal \<Rightarrow> ''personal'')"

definition quickClassify :: "string \<Rightarrow> AgentType \<Rightarrow> TaskClassification" where
  "quickClassify input t =
     (let cat = detectCategory input
      in \<lparr> intent =
             \<lparr> type = Known t,
               confidence = 1,
               category = cat,
               suggestedAgent = categoryToAgent cat,
               requiresHumanApproval = False,
               reasoning = ''Explicitly marked as '' @ agentTypeName t \<rparr>,
           extractedTask =
             \<lparr> title = extractTitle input,
               description = input,
               priority = detectPriority input,
               tools = detectTools cat \<rparr> \<rparr>)"

text \<open>
  \<open>content.match(/\{[\s\S]*\}/)\<close>: the match starts at the first opening brace and, the
  star being greedy, ends at the last closing brace behind it; there is none when no
  closing brace follows the first opening brace.
\<close>

definition jsonMatch :: "string \<Rightarrow> string option" where
  "jsonMatch text =
     (let fromBrace = dropWhile (\<lambda>c. c \<noteq> CHR ''{'') text in
      if fromBrace = [] then None
      else let upToBrace = dropWhile (\<lambda>c. c \<noteq> CHR ''}'') (rev (tl fromBrace)) in
           if upToBrace = [] then None
           else Some (CHR ''{'' # rev upToBrace))"

text \<open>
  The orchestrator and the agents call \<open>modelClient.complete\<close>, a collaborator of type
  \<open>'w Complete\<close> that their functions take as the argument \<open>modelClient_complete\<close>; the
  \<open>complete\<close> of the model client below is one such function. The two prompt texts of the
  orchestrator do not matter to the control flow and are fields of its record
  (\<open>classificationPrompt input\<close> stands for
  \<open>CLASSIFICATION_PROMPT.replace('{input}', input)\<close>).
\<close>

type_synonym 'w Complete =
  "'w CompletionOptions \<Rightarrow> 'w \<Rightarrow> (string + CompletionResponse) \<times> 'w"

record Samantha =
  modelId :: "string option"
  SAMANTHA_SYSTEM_PROMPT :: string
  classificationPrompt :: "string \<Rightarrow> string"

text \<open>
  \<open>classifyTask\<close> returns either a classification it built itself or, unchecked, whatever
  JSON value the model's answer parsed to (\<open>parsed as TaskClassification\<close>).
\<close>

datatype Classified = Structured TaskClassification | Parsed json

text \<open>The options of the completion that \<open>classifyTask\<close> requests.\<close>

definition classificationRequest :: "Samantha \<Rightarrow> string \<Rightarrow> string \<Rightarrow> 'w CompletionOptions" where
  "classificationRequest self model prompt =
     \<lparr> opt_model = model,
       opt_messages =
         [\<lparr> role = RoleSystem, content = SAMANTHA_SYSTEM_PROMPT self,
            toolCalls = None, toolResults = None \<rparr>,
          \<lparr> role = RoleUser, content = prompt,
            toolCalls = None, toolResults = None \<rparr>],
       opt_tools = None,
       opt_maxTokens = Some 512,
       opt_temperature = Some (3 / 10) \<rparr>"

text \<open>
  The body of the \<open>try\<close> block: \<open>Inr (Some v)\<close> when it returns \<open>v\<close>, \<open>Inr None\<close> when it
  falls through, \<open>Inl e\<close> when \<open>complete\<close> or \<open>JSON.parse\<close> throws.
\<close>

definition classifyTask_try ::
  "JSON \<Rightarrow> 'w Complete \<Rightarrow> Samantha \<Rightarrow> string \<Rightarrow> string \<Rightarrow> 'w
     \<Rightarrow> (string + json option) \<times> 'w" where
  "classifyTask_try js modelClient_complete self model prompt w =
     (case modelClient_complete (classificationRequest self model prompt) w of
        (Inl e, w') \<Rightarrow> (Inl e, w')
      | (Inr response, w') \<Rightarrow>
          (case jsonMatch (resp_content response) of
             None \<Rightarrow> (Inr None, w')
           | Some matched \<Rightarrow>
               (case JSON_parse js matched of
                  Inl e \<Rightarrow> (Inl e, w')
                | Inr parsed \<Rightarrow> (Inr (Some parsed), w'))))"

text \<open>
  \<open>classifyTask\<close>; \<open>Inl\<close> would be an exception leaving it. The \<open>catch\<close> block logs the
  error and falls through to the heuristic result. The test \<open>!this.modelId\<close> holds for
  \<open>null\<close> and for the empty text.
\<close>

definition classifyTask ::
  "JSON \<Rightarrow> 'w Complete \<Rightarrow> Samantha \<Rightarrow> string \<Rightarrow> AgentType option \<Rightarrow> 'w
     \<Rightarrow> (string + Classified) \<times> 'w" where
  "classifyTask js modelClient_complete self input explicitType w =
     (case explicitType of
        Some t \<Rightarrow> (Inr (Structured (quickClassify input t)), w)
      | None \<Rightarrow>
          (let heuristicResult = heuristicClassify input in
           if confidence (intent heuristicResult) > 8 / 10
             then (Inr (Structured heuristicResult), w)
           else
             (case modelId self of
                Some (c # cs) \<Rightarrow>
                  (case classifyTask_try js modelClient_complete self (c # cs)
                          (classificationPrompt self input) w of
                     (Inr (Some parsed), w') \<Rightarrow> (Inr (Parsed parsed), w')
                   | (Inr None, w') \<Rightarrow> (Inr (Structured heuristicResult), w')
                   | (Inl e, w') \<Rightarrow> (Inr (Structured heuristicResult), w'))
              | _ \<Rightarrow> (Inr (Structured heuristicResult), w))))"

section \<open>The model client (models/client.ts)\<close>

datatype ModelProvider = OpenAI | Anthropic | LMStudio | Ollama

record ModelCapabilities =
  contextWindow :: real
  supportsTools :: bool
  supportsVision :: bool
  supportsStreaming :: bool
  maxOutputTokens :: real

record ModelInfo =
  info_id :: string
  info_name :: string
  provider :: ModelProvider
  isLocal :: bool
  capabilities :: ModelCapabilities
  isAvailable :: bool

text \<open>
  \<open>zodToJsonSchema\<close> returns the members of a JSON object. It does not look at the
  schema.
\<close>

definition zodToJsonSchema :: "ZodType \<Rightarrow> (string \<times> json) list" where
  "zodToJsonSchema schema =
     [(''type'', JString ''object''), (''properties'', JObject []), (''required'', JArray [])]"

text \<open>
  The object spread \<open>{ type: 'object', ...members }\<close>: every member is assigned in order; an
  assignment to a key that is there replaces its value in place, another key goes to the
  end.
\<close>

definition spread :: "(string \<times> json) list \<Rightarrow> (string \<times> json) list \<Rightarrow> (string \<times> json) list" where
  "spread base members = foldl (\<lambda>obj (k, v). AList.update k v obj) base members"

subsection \<open>The wire format of the OpenAI-compatible backends\<close>

record OpenAIFunction =
  fn_name :: string
  fn_arguments :: string

record OpenAIToolCall =
  call_id :: string
  call_type :: string
  call_function :: OpenAIFunction

text \<open>
  The three shapes of message \<open>messagesToOpenAI\<close> builds: a \<open>tool\<close> turn with its
  \<open>tool_call_id\<close> and content; an \<open>assistant\<close> turn with its content (or \<open>null\<close>) and its
  \<open>tool_calls\<close>; a turn with a role and a content.
\<close>

datatype OpenAIMessage =
  ToolMessage string string
  | AssistantToolCalls "string option" "OpenAIToolCall list"
  | PlainMessage MessageRole string

record OpenAIToolDef =
  def_type :: string
  def_name :: string
  def_description :: string
  def_parameters :: json

record OpenAIRequest =
  req_model :: string
  req_messages :: "OpenAIMessage list"
  req_tools :: "OpenAIToolDef list option"
  req_max_tokens :: real
  req_temperature :: real
  req_stream :: bool

record OpenAIResponseMessage =
  msg_content :: "string option"
  msg_tool_calls :: "OpenAIToolCall list option"

record OpenAIChoice =
  choice_message :: OpenAIResponseMessage
  finish_reason :: string

record OpenAIUsage =
  prompt_tokens :: real
  completion_tokens :: real
  total_tokens :: real

record OpenAIResponse =
  choices :: "OpenAIChoice list"
  response_usage :: "OpenAIUsage option"

text \<open>
  A stream of the transport: the items it delivers and, when it breaks, the error that
  ends it. A chunk of the OpenAI stream is its \<open>choices[0]?.delta?.content\<close>.
\<close>

record 'a Stream =
  delivered :: "'a list"
  broken :: "string option"

record 'w OpenAIClient =
  chat_completions_create :: "OpenAIRequest \<Rightarrow> 'w \<Rightarrow> (string + OpenAIResponse) \<times> 'w"
  chat_completions_stream ::
    "OpenAIRequest \<Rightarrow> 'w \<Rightarrow> (string + string option Stream) \<times> 'w"

subsection \<open>The wire format of the Anthropic backend\<close>

text \<open>
  Content blocks: \<open>text\<close>; \<open>tool_use\<close> with id, name and input; \<open>tool_result\<close> with
  \<open>tool_use_id\<close> and content.
\<close>

datatype ContentBlock =
  TextBlock string
  | ToolUseBlock string string json
  | ToolResultBlock string string

datatype AnthropicContent = TextContent string | BlockContent "ContentBlock list"

record AnthropicMessage =
  am_role :: MessageRole
  am_content :: AnthropicContent

record AnthropicConversation =
  system :: "string option"
  messages :: "AnthropicMessage list"

record AnthropicToolDef =
  at_name :: string
  at_description :: string
  input_schema :: json

record AnthropicRequest =
  areq_model :: string
  areq_system :: "string option"
  areq_messages :: "AnthropicMessage list"
  areq_tools :: "AnthropicToolDef list option"
  areq_max_tokens :: real
  areq_temperature :: real

record AnthropicUsage =
  input_tokens :: real
  output_tokens :: real

record AnthropicResponse =
  response_content :: "ContentBlock list"
  anthropic_usage :: AnthropicUsage
  stop_reason :: string

text \<open>
  An event of the Anthropic stream: a \<open>content_block_delta\<close> with a \<open>text_delta\<close>, or any
  other event.
\<close>

datatype AnthropicEvent = TextDelta string | OtherEvent

record 'w AnthropicClient =
  messages_create :: "AnthropicRequest \<Rightarrow> 'w \<Rightarrow> (string + AnthropicResponse) \<times> 'w"
  messages_stream :: "AnthropicRequest \<Rightarrow> 'w \<Rightarrow> (string + AnthropicEvent Stream) \<times> 'w"

subsection \<open>The client\<close>

record 'w ModelClient =
  openaiClients :: "string \<rightharpoonup> 'w OpenAIClient"
  anthropicClient :: "'w AnthropicClient option"

text \<open>The state the constructor leaves: no provider is configured.\<close>

definition newModelClient :: "'w ModelClient" where
  "newModelClient = \<lparr> openaiClients = Map.empty, anthropicClient = None \<rparr>"

text \<open>
  \<open>options.model.includes(':') ? options.model.split(':')[1] : options.model\<close>: the text
  between the first colon and the next one.
\<close>

definition modelName :: "string \<Rightarrow> string" where
  "modelName model =
     (if CHR '':'' \<in> set model
      then takeWhile (\<lambda>c. c \<noteq> CHR '':'') (tl (dropWhile (\<lambda>c. c \<noteq> CHR '':'') model))
      else model)"

text \<open>\<open>options.maxTokens || 4096\<close> and \<open>options.temperature ?? 0.7\<close>.\<close>

definition maxTokensOrDefault :: "real option \<Rightarrow> real" where
  "maxTokensOrDefault m = (case m of None \<Rightarrow> 4096 | Some n \<Rightarrow> if n = 0 then 4096 else n)"

definition temperatureOrDefault :: "real option \<Rightarrow> real" where
  "temperatureOrDefault t = (case t of None \<Rightarrow> 7 / 10 | Some x \<Rightarrow> x)"

text \<open>\<open>msg.toolResults[0]?.toolCallId || ''\<close>\<close>

definition firstToolCallId :: "ToolResult list \<Rightarrow> string" where
  "firstToolCallId results = (case results of [] \<Rightarrow> '''' | r # _ \<Rightarrow> toolCallId r)"

definition toolCallToOpenAI :: "JSON \<Rightarrow> ToolCall \<Rightarrow> OpenAIToolCall" where
  "toolCallToOpenAI js tc =
     \<lparr> call_id = tc_id tc,
       call_type = ''function'',
       call_function =
         \<lparr> fn_name = tc_name tc, fn_arguments = JSON_stringify js (tc_arguments tc) \<rparr> \<rparr>"

definition messageToOpenAI :: "JSON \<Rightarrow> Message \<Rightarrow> OpenAIMessage" where
  "messageToOpenAI js msg =
     (case (role msg, toolResults msg, toolCalls msg) of
        (RoleTool, Some results, _) \<Rightarrow> ToolMessage (firstToolCallId results) (content msg)
      | (RoleAssistant, _, Some calls) \<Rightarrow>
          AssistantToolCalls (if content msg = [] then None else Some (content msg))
            (map (toolCallToOpenAI js) calls)
      | _ \<Rightarrow> PlainMessage (role msg) (content msg))"

definition messagesToOpenAI :: "JSON \<Rightarrow> Message list \<Rightarrow> OpenAIMessage list" where
  "messagesToOpenAI js msgs = map (messageToOpenAI js) msgs"

text \<open>
  The loop of \<open>messagesToAnthropic\<close> with its two variables: the system text and the
  messages pushed so far.
\<close>

fun messagesToAnthropic_loop ::
  "Message list \<Rightarrow> string option \<Rightarrow> AnthropicMessage list \<Rightarrow> AnthropicConversation" where
  "messagesToAnthropic_loop [] sys anthropicMessages =
     \<lparr> system = sys, messages = anthropicMessages \<rparr>"
| "messagesToAnthropic_loop (msg # rest) sys anthropicMessages =
     (case (role msg, toolResults msg, toolCalls msg) of
        (RoleSystem, _, _) \<Rightarrow> messagesToAnthropic_loop rest (Some (content msg)) anthropicMessages
      | (RoleTool, Some results, _) \<Rightarrow>
          messagesToAnthropic_loop rest sys
            (anthropicMessages @
               [\<lparr> am_role = RoleUser,
                  am_content =
                    BlockContent [ToolResultBlock (firstToolCallId results) (content msg)] \<rparr>])
      | (RoleAssistant, _, Some calls) \<Rightarrow>
          messagesToAnthropic_loop rest sys
            (anthropicMessages @
               [\<lparr> am_role = RoleAssistant,
                  am_content =
                    BlockContent
                      ((if content msg = [] then [] else [TextBlock (content msg)])
                       @ map (\<lambda>tc. ToolUseBlock (tc_id tc) (tc_name tc) (tc_arguments tc))
                           calls) \<rparr>])
      | _ \<Rightarrow>
          messagesToAnthropic_loop rest sys
            (anthropicMessages @
               [\<lparr> am_role = (if role msg = RoleUser then RoleUser else RoleAssistant),
                  am_content = TextContent (content msg) \<rparr>]))"

definition messagesToAnthropic :: "Message list \<Rightarrow> AnthropicConversation" where
  "messagesToAnthropic msgs = messagesToAnthropic_loop msgs None []"

definition toolToOpenAI :: "'w Tool \<Rightarrow> OpenAIToolDef" where
  "toolToOpenAI tool =
     \<lparr> def_type = ''function'',
       def_name = tool_name tool,
       def_description = tool_description tool,
       def_parameters = JObject (zodToJsonSchema (tool_parameters tool)) \<rparr>"

definition toolToAnthropic :: "'w Tool \<Rightarrow> AnthropicToolDef" where
  "toolToAnthropic tool =
     \<lparr> at_name = tool_name tool,
       at_description = tool_description tool,
       input_schema =
         JObject (spread [(''type'', JString ''object'')] (zodToJsonSchema (tool_parameters tool))) \<rparr>"

text \<open>\<open>tools && tools.length > 0 ? tools : undefined\<close>\<close>

definition nonEmptyOrUndefined :: "'a list option \<Rightarrow> 'a list option" where
  "nonEmptyOrUndefined xs = (case xs of Some (y # ys) \<Rightarrow> Some (y # ys) | _ \<Rightarrow> None)"

text \<open>
  \<open>choice.message.tool_calls?.map(...)\<close> of \<open>completeOpenAI\<close>: the arguments of every call
  go through \<open>JSON.parse\<close>, and the first text that does not parse throws.
\<close>

fun toolCallsFromOpenAI :: "JSON \<Rightarrow> OpenAIToolCall list \<Rightarrow> string + ToolCall list" where
  "toolCallsFromOpenAI js [] = Inr []"
| "toolCallsFromOpenAI js (tc # rest) =
     (case JSON_parse js (fn_arguments (call_function tc)) of
        Inl e \<Rightarrow> Inl e
      | Inr args \<Rightarrow>
          (case toolCallsFromOpenAI js rest of
             Inl e \<Rightarrow> Inl e
           | Inr calls \<Rightarrow>
               Inr (\<lparr> tc_id = call_id tc, tc_name = fn_name (call_function tc),
                       tc_arguments = args \<rparr> # calls)))"

text \<open>
  What \<open>completeOpenAI\<close> makes of the response, inside its \<open>try\<close> block. With no choice in
  the response, reading \<open>choice.message\<close> throws a \<open>TypeError\<close>.
\<close>

definition responseFromOpenAI :: "JSON \<Rightarrow> OpenAIResponse \<Rightarrow> string + CompletionResponse" where
  "responseFromOpenAI js response =
     (case choices response of
        [] \<Rightarrow> Inl ''Cannot read properties of undefined (reading 'message')''
      | choice # _ \<Rightarrow>
          (case (case msg_tool_calls (choice_message choice) of
                   None \<Rightarrow> Inr None
                 | Some calls \<Rightarrow> map_sum id Some (toolCallsFromOpenAI js calls)) of
             Inl e \<Rightarrow> Inl e
           | Inr calls \<Rightarrow>
               Inr \<lparr> resp_content =
                       (case msg_content (choice_message choice) of None \<Rightarrow> '''' | Some c \<Rightarrow> c),
                     resp_toolCalls = calls,
                     usage =
                       map_option
                         (\<lambda>u. \<lparr> promptTokens = prompt_tokens u,
                                completionTokens = completion_tokens u,
                                totalTokens = total_tokens u \<rparr>)
                         (response_usage response),
                     finishReason =
                       (if finish_reason choice = ''tool_calls'' then Tool_calls else Stop) \<rparr>))"

text \<open>
  \<open>completeOpenAI\<close>. The \<open>catch\<close> block logs the error and throws it again, so an error
  of the transport or of the conversion leaves the function as it is.
\<close>

definition completeOpenAI ::
  "JSON \<Rightarrow> 'w ModelClient \<Rightarrow> 'w CompletionOptions \<Rightarrow> string \<Rightarrow> 'w
     \<Rightarrow> (string + CompletionResponse) \<times> 'w" where
  "completeOpenAI js self options clientKey w =
     (case openaiClients self clientKey of
        None \<Rightarrow> (Inl (clientKey @ '' client not configured''), w)
      | Some client \<Rightarrow>
          (case chat_completions_create client
                  \<lparr> req_model = modelName (opt_model options),
                    req_messages = messagesToOpenAI js (opt_messages options),
                    req_tools = nonEmptyOrUndefined (map_option (map toolToOpenAI) (opt_tools options)),
                    req_max_tokens = maxTokensOrDefault (opt_maxTokens options),
                    req_temperature = temperatureOrDefault (opt_temperature options),
                    req_stream = False \<rparr> w of
             (Inl e, w') \<Rightarrow> (Inl e, w')
           | (Inr response, w') \<Rightarrow> (responseFromOpenAI js response, w')))"

text \<open>
  The loop of \<open>completeAnthropic\<close> over the blocks of the response, with its two
  variables: the content and the tool calls so far.
\<close>

fun fromAnthropicBlocks :: "ContentBlock list \<Rightarrow> string \<Rightarrow> ToolCall list \<Rightarrow> string \<times> ToolCall list" where
  "fromAnthropicBlocks [] text calls = (text, calls)"
| "fromAnthropicBlocks (TextBlock t # rest) text calls = fromAnthropicBlocks rest (text @ t) calls"
| "fromAnthropicBlocks (ToolUseBlock i n input # rest) text calls =
     fromAnthropicBlocks rest text
       (calls @ [\<lparr> tc_id = i, tc_name = n, tc_arguments = input \<rparr>])"
| "fromAnthropicBlocks (ToolResultBlock i c # rest) text calls = fromAnthropicBlocks rest text calls"

definition responseFromAnthropic :: "AnthropicResponse \<Rightarrow> CompletionResponse" where
  "responseFromAnthropic response =
     (case fromAnthropicBlocks (response_content response) [] [] of
        (text, calls) \<Rightarrow>
          \<lparr> resp_content = text,
            resp_toolCalls = (if calls = [] then None else Some calls),
            usage =
              Some \<lparr> promptTokens = input_tokens (anthropic_usage response),
                     completionTokens = output_tokens (anthropic_usage response),
                     totalTokens = input_tokens (anthropic_usage response)
                                   + output_tokens (anthropic_usage response) \<rparr>,
            finishReason = (if stop_reason response = ''tool_use'' then Tool_calls else Stop) \<rparr>)"

text \<open>\<open>system || undefined\<close>: neither \<open>null\<close> nor the empty text is sent.\<close>

definition systemOrUndefined :: "string option \<Rightarrow> string option" where
  "systemOrUndefined sys = (case sys of Some (c # cs) \<Rightarrow> Some (c # cs) | _ \<Rightarrow> None)"

definition completeAnthropic ::
  "'w ModelClient \<Rightarrow> 'w CompletionOptions \<Rightarrow> 'w \<Rightarrow> (string + CompletionResponse) \<times> 'w" where
  "completeAnthropic self options w =
     (case anthropicClient self of
        None \<Rightarrow> (Inl ''Anthropic client not configured'', w)
      | Some client \<Rightarrow>
          (let conversation = messagesToAnthropic (opt_messages options) in
           case messages_create client
                  \<lparr> areq_model = modelName (opt_model options),
                    areq_system = systemOrUndefined (system conversation),
                    areq_messages = messages conversation,
                    areq_tools =
                      nonEmptyOrUndefined (map_option (map toolToAnthropic) (opt_tools options)),
                    areq_max_tokens = maxTokensOrDefault (opt_maxTokens options),
                    areq_temperature = temperatureOrDefault (opt_temperature options) \<rparr> w of
             (Inl e, w') \<Rightarrow> (Inl e, w')
           | (Inr response, w') \<Rightarrow> (Inr (responseFromAnthropic response), w')))"

definition providerName :: "ModelProvider \<Rightarrow> string" where
  "providerName p =
     (case p of OpenAI \<Rightarrow> ''openai'' | Anthropic \<Rightarrow> ''anthropic''
      | LMStudio \<Rightarrow> ''lmstudio'' | Ollama \<Rightarrow> ''ollama'')"

text \<open>
  \<open>complete\<close>. \<open>getModel\<close> stands for \<open>modelDetector.getModel\<close>, the lookup in the table of
  detected models.
\<close>

definition ModelClient_complete ::
  "JSON \<Rightarrow> (string \<rightharpoonup> ModelInfo) \<Rightarrow> 'w ModelClient \<Rightarrow> 'w CompletionOptions \<Rightarrow> 'w
     \<Rightarrow> (string + CompletionResponse) \<times> 'w" where
  "ModelClient_complete js getModel self options w =
     (case getModel (opt_model options) of
        None \<Rightarrow>
          (if prefix ''openai:'' (opt_model options) then completeOpenAI js self options ''openai'' w
           else if prefix ''anthropic:'' (opt_model options) then completeAnthropic self options w
           else if prefix ''lmstudio:'' (opt_model options)
             then completeOpenAI js self options ''lmstudio'' w
           else (Inl (''Unknown model: '' @ opt_model options), w))
      | Some modelInfo \<Rightarrow>
          (case provider modelInfo of
             OpenAI \<Rightarrow> completeOpenAI js self options ''openai'' w
           | LMStudio \<Rightarrow> completeOpenAI js self options ''lmstudio'' w
           | Anthropic \<Rightarrow> completeAnthropic self options w
           | Ollama \<Rightarrow> (Inl (''Unsupported provider: '' @ providerName (provider modelInfo)), w)))"

subsection \<open>Streaming\<close>

text \<open>
  What a consumer gets from the generator of \<open>streamComplete\<close>: the text fragments it
  yields and, when it throws, the error.
\<close>

record Fragments =
  yielded :: "string list"
  thrown :: "string option"

definition streamOpenAI ::
  "JSON \<Rightarrow> 'w ModelClient \<Rightarrow> 'w CompletionOptions \<Rightarrow> string \<Rightarrow> 'w \<Rightarrow> Fragments \<times> 'w" where
  "streamOpenAI js self options clientKey w =
     (case openaiClients self clientKey of
        None \<Rightarrow> (\<lparr> yielded = [], thrown = None \<rparr>, w)
      | Some client \<Rightarrow>
          (case chat_completions_stream client
                  \<lparr> req_model = modelName (opt_model options),
                    req_messages = messagesToOpenAI js (opt_messages options),
                    req_tools = None,
                    req_max_tokens = maxTokensOrDefault (opt_maxTokens options),
                    req_temperature = temperatureOrDefault (opt_temperature options),
                    req_stream = True \<rparr> w of
             (Inl e, w') \<Rightarrow> (\<lparr> yielded = [], thrown = Some e \<rparr>, w')
           | (Inr stream, w') \<Rightarrow>
               (\<lparr> yielded = [c. Some c \<leftarrow> delivered stream, c \<noteq> []],
                  thrown = broken stream \<rparr>, w')))"

definition streamAnthropic ::
  "'w ModelClient \<Rightarrow> 'w CompletionOptions \<Rightarrow> 'w \<Rightarrow> Fragments \<times> 'w" where
  "streamAnthropic self options w =
     (case anthropicClient self of
        None \<Rightarrow> (\<lparr> yielded = [], thrown = None \<rparr>, w)
      | Some client \<Rightarrow>
          (let conversation = messagesToAnthropic (opt_messages options) in
           case messages_stream client
                  \<lparr> areq_model = modelName (opt_model options),
                    areq_system = systemOrUndefined (system conversation),
                    areq_messages = messages conversation,
                    areq_tools = None,
                    areq_max_tokens = maxTokensOrDefault (opt_maxTokens options),
                    areq_temperature = temperatureOrDefault (opt_temperature options) \<rparr> w of
             (Inl e, w') \<Rightarrow> (\<lparr> yielded = [], thrown = Some e \<rparr>, w')
           | (Inr stream, w') \<Rightarrow>
               (\<lparr> yielded = [t. TextDelta t \<leftarrow> delivered stream],
                  thrown = broken stream \<rparr>, w')))"

definition streamComplete ::
  "JSON \<Rightarrow> (string \<rightharpoonup> ModelInfo) \<Rightarrow> 'w ModelClient \<Rightarrow> 'w CompletionOptions \<Rightarrow> 'w
     \<Rightarrow> Fragments \<times> 'w" where
  "streamComplete js getModel self options w =
     (case getModel (opt_model options) of
        None \<Rightarrow> streamOpenAI js self options ''openai'' w
      | Some modelInfo \<Rightarrow>
          (case provider modelInfo of
             OpenAI \<Rightarrow> streamOpenAI js self options ''openai'' w
           | LMStudio \<Rightarrow> streamOpenAI js self options ''lmstudio'' w
           | Anthropic \<Rightarrow> streamAnthropic self options w
           | Ollama \<Rightarrow> (\<lparr> yielded = [], thrown = None \<rparr>, w)))"

section \<open>The execution engine (agents/base.ts)\<close>

datatype TaskStatus = Pending | In_progress | Waiting_input | Completed | Failed

record TaskResult =
  res_success :: bool
  res_output :: "string option"
  res_error :: "string option"

text \<open>A task, without its dates and its free-form metadata.\<close>

record Task =
  task_id :: string
  task_title :: string
  task_description :: string
  task_type :: AgentType
  assignedAgent :: "string option"
  task_priority :: TaskPriority
  status :: TaskStatus
  task_result :: "TaskResult option"

text \<open>
  What \<open>execute\<close> reads of an agent: the system prompt, token limit and temperature of its
  configuration, the conversation history of its state, its tools (a \<open>Map\<close> from name to
  tool, here the list of its entries in insertion order) and its model id. The fields
  \<open>tools\<close> and \<open>modelId\<close> carry the prefix \<open>agent_\<close>. The notifications that \<open>execute\<close> emits
  and its bookkeeping of \<open>state.isActive\<close>, \<open>state.currentTask\<close> and \<open>state.lastActivity\<close> are
  left out.
\<close>

record 'w BaseAgent =
  systemPrompt :: string
  maxTokens :: real
  temperature :: real
  conversationHistory :: "Message list"
  agent_tools :: "(string \<times> 'w Tool) list"
  agent_modelId :: "string option"

definition maxIterations :: nat where
  "maxIterations = 10"

text \<open>\<open>conversationHistory.slice(-10)\<close> is the last ten messages of the history.\<close>

definition buildMessages :: "'w BaseAgent \<Rightarrow> Task \<Rightarrow> Message list" where
  "buildMessages self task =
     [\<lparr> role = RoleSystem, content = systemPrompt self, toolCalls = None, toolResults = None \<rparr>]
     @ drop (length (conversationHistory self) - 10) (conversationHistory self)
     @ [\<lparr> role = RoleUser,
          content = ''Task: '' @ task_title task @ [CHR 0x0A, CHR 0x0A]
                    @ ''Description: '' @ task_description task,
          toolCalls = None, toolResults = None \<rparr>]"

text \<open>\<open>getCompletion\<close>; the test \<open>!this.modelId\<close> holds for \<open>null\<close> and for the empty text.\<close>

definition getCompletion ::
  "'w Complete \<Rightarrow> 'w BaseAgent \<Rightarrow> Message list \<Rightarrow> 'w \<Rightarrow> (string + CompletionResponse) \<times> 'w" where
  "getCompletion modelClient_complete self msgs w =
     (case agent_modelId self of
        Some (c # cs) \<Rightarrow>
          modelClient_complete
            \<lparr> opt_model = c # cs,
              opt_messages = msgs,
              opt_tools = nonEmptyOrUndefined (Some (map snd (agent_tools self))),
              opt_maxTokens = Some (maxTokens self),
              opt_temperature = Some (temperature self) \<rparr> w
      | _ \<Rightarrow> (Inl ''No model available'', w))"

text \<open>
  \<open>(error as Error).message\<close> in a \<open>catch\<close> block: the property \<open>message\<close> of the value
  caught. Reading it from \<open>null\<close> or \<open>undefined\<close> throws a \<open>TypeError\<close> (\<open>Inl\<close> of its message);
  the cast does nothing when the program runs.
\<close>

definition errorMessage :: "Thrown \<Rightarrow> string + string option" where
  "errorMessage error =
     (case error of
        ThrownNull \<Rightarrow> Inl ''Cannot read properties of null (reading 'message')''
      | ThrownUndefined \<Rightarrow> Inl ''Cannot read properties of undefined (reading 'message')''
      | ThrownError message \<Rightarrow> Inr (Some message)
      | ThrownValue \<Rightarrow> Inr None)"

text \<open>
  \<open>executeTool\<close>; \<open>Inl\<close> is the message of an error that leaves it: the \<open>TypeError\<close> of its
  \<open>catch\<close> block when the tool has thrown \<open>null\<close> or \<open>undefined\<close>.
\<close>

definition executeTool ::
  "'w BaseAgent \<Rightarrow> ToolCall \<Rightarrow> 'w \<Rightarrow> (string + ToolResult) \<times> 'w" where
  "executeTool self toolCall w =
     (case map_of (agent_tools self) (tc_name toolCall) of
        None \<Rightarrow>
          (Inr \<lparr> toolCallId = tc_id toolCall, success = False, tr_output = None,
                 tr_error = Some (''Unknown tool: '' @ tc_name toolCall) \<rparr>, w)
      | Some tool \<Rightarrow>
          (case tool_execute tool (tc_arguments toolCall) w of
             (Inr result, w') \<Rightarrow> (Inr result, w')
           | (Inl error, w') \<Rightarrow>
               (case errorMessage error of
                  Inl typeError \<Rightarrow> (Inl typeError, w')
                | Inr message \<Rightarrow>
                    (Inr \<lparr> toolCallId = tc_id toolCall, success = False, tr_output = None,
                           tr_error = message \<rparr>, w'))))"

text \<open>\<open>result.output || result.error || ''\<close>\<close>

definition outputOrError :: "ToolResult \<Rightarrow> string" where
  "outputOrError result =
     (case tr_output result of
        Some (c # cs) \<Rightarrow> c # cs
      | _ \<Rightarrow> (case tr_error result of Some (c # cs) \<Rightarrow> c # cs | _ \<Rightarrow> ''''))"

text \<open>The two messages that \<open>execute\<close> pushes after a tool call.\<close>

definition assistantMessage :: "string \<Rightarrow> ToolCall \<Rightarrow> Message" where
  "assistantMessage responseContent toolCall =
     \<lparr> role = RoleAssistant, content = responseContent,
       toolCalls = Some [toolCall], toolResults = None \<rparr>"

definition toolMessage :: "ToolResult \<Rightarrow> Message" where
  "toolMessage result =
     \<lparr> role = RoleTool, content = outputOrError result,
       toolCalls = None, toolResults = Some [result] \<rparr>"

text \<open>
  The \<open>for\<close> loop of \<open>execute\<close> over the tool calls of a response: it runs the tool and
  pushes the two messages, call by call. When \<open>executeTool\<close> throws, the error leaves the
  loop (\<open>Inl\<close> of its message and of the messages pushed until then).
\<close>

fun execute_toolCalls ::
  "'w BaseAgent \<Rightarrow> string \<Rightarrow> ToolCall list \<Rightarrow> Message list \<Rightarrow> 'w
     \<Rightarrow> (string \<times> Message list + Message list) \<times> 'w" where
  "execute_toolCalls self responseContent [] msgs w = (Inr msgs, w)"
| "execute_toolCalls self responseContent (toolCall # rest) msgs w =
     (case executeTool self toolCall w of
        (Inl e, w') \<Rightarrow> (Inl (e, msgs), w')
      | (Inr result, w') \<Rightarrow>
          execute_toolCalls self responseContent rest
            (msgs @ [assistantMessage responseContent toolCall, toolMessage result]) w')"

text \<open>
  A run of the engine: what it returned, the message list at its end, the outcome of
  every completion it requested (in order), and the world at its end. The last two are
  there for the statements about the run; the source returns neither.
\<close>

record ('a, 'w) Run =
  returned :: 'a
  transcript :: "Message list"
  completions :: "(string + CompletionResponse) list"
  world :: 'w

text \<open>
  The \<open>while\<close> loop of \<open>execute\<close> and the statements behind it, inside the \<open>try\<close> block:
  \<open>Inr\<close> of the result and the updated task when the block returns, \<open>Inl\<close> of the message
  when something in it throws.
\<close>

function execute_loop ::
  "'w Complete \<Rightarrow> 'w BaseAgent \<Rightarrow> Task \<Rightarrow> Message list \<Rightarrow> nat
     \<Rightarrow> (string + CompletionResponse) list \<Rightarrow> 'w \<Rightarrow> (string + TaskResult \<times> Task, 'w) Run" where
  "execute_loop modelClient_complete self task msgs iterations requested w =
     (if iterations < maxIterations then
        (case getCompletion modelClient_complete self msgs w of
           (Inl e, w') \<Rightarrow>
             \<lparr> returned = Inl e, transcript = msgs,
               completions = requested @ [Inl e], world = w' \<rparr>
         | (Inr response, w') \<Rightarrow>
             (case resp_toolCalls response of
                Some (toolCall # rest) \<Rightarrow>
                  (case execute_toolCalls self (resp_content response) (toolCall # rest) msgs w' of
                     (Inl (e, msgs'), w'') \<Rightarrow>
                       \<lparr> returned = Inl e, transcript = msgs',
                         completions = requested @ [Inr response], world = w'' \<rparr>
                   | (Inr msgs', w'') \<Rightarrow>
                       execute_loop modelClient_complete self task msgs' (iterations + 1)
                         (requested @ [Inr response]) w'')
              | _ \<Rightarrow>
                  (let result = \<lparr> res_success = True, res_output = Some (resp_content response),
                                  res_error = None \<rparr>
                   in \<lparr> returned =
                          Inr (result, task\<lparr> status := Completed, task_result := Some result \<rparr>),
                        transcript = msgs,
                        completions = requested @ [Inr response], world = w' \<rparr>)))
      else
        (let result = \<lparr> res_success = False, res_output = None,
                        res_error = Some ''Max iterations reached without completion'' \<rparr>
         in \<lparr> returned = Inr (result, task\<lparr> status := Failed, task_result := Some result \<rparr>),
              transcript = msgs, completions = requested, world = w \<rparr>))"
  by pat_completeness auto
termination
  by (relation "measure (\<lambda>(c, self, task, msgs, iterations, requested, w).
                  maxIterations - iterations)") auto

declare execute_loop.simps [simp del]

text \<open>
  \<open>execute\<close>: the \<open>try\<close> block from the messages that \<open>buildMessages\<close> gives, and the \<open>catch\<close>
  block, which turns the message of an error into a failed result.
\<close>

definition execute ::
  "'w Complete \<Rightarrow> 'w BaseAgent \<Rightarrow> Task \<Rightarrow> 'w \<Rightarrow> (TaskResult \<times> Task, 'w) Run" where
  "execute modelClient_complete self task w =
     (let run = execute_loop modelClient_complete self task (buildMessages self task) 0 [] w in
      case returned run of
        Inr (result, task') \<Rightarrow>
          \<lparr> returned = (result, task'), transcript = transcript run,
            completions = completions run, world = world run \<rparr>
      | Inl message \<Rightarrow>
          (let result = \<lparr> res_success = False, res_output = None, res_error = Some message \<rparr>
           in \<lparr> returned = (result, task\<lparr> status := Failed, task_result := Some result \<rparr>),
                transcript = transcript run,
                completions = completions run, world = world run \<rparr>))"

section \<open>Notions of the specification\<close>

text \<open>
  The specification's count of matches: the number of indicators of a list that match
  the input as a case-insensitive substring, that is, that are the lower-cased form of a
  substring of the input.
\<close>

definition matchCount :: "string list \<Rightarrow> string \<Rightarrow> nat" where
  "matchCount indicators input =
     length (filter (\<lambda>k. \<exists>s. sublist s input \<and> toLowerCase s = k) indicators)"

text \<open>
  A text has an unclosed bracket when an opening bracket stands in it behind its last
  closing bracket (anywhere, when it has no closing bracket).
\<close>

definition unclosedBracket :: "string \<Rightarrow> bool" where
  "unclosedBracket pre = (CHR ''['' \<in> set (takeWhile (\<lambda>c. c \<noteq> CHR '']'') (rev pre)))"

text \<open>
  A response text is unparseable when the classifier finds no JSON object in it: there is
  no match, or \<open>JSON.parse\<close> throws on the match.
\<close>

definition unparseable :: "JSON \<Rightarrow> string \<Rightarrow> bool" where
  "unparseable js text =
     (case jsonMatch text of
        None \<Rightarrow> True
      | Some matched \<Rightarrow> (case JSON_parse js matched of Inl e \<Rightarrow> True | Inr v \<Rightarrow> False))"


text \<open>
  The results of the tool calls of a response when \<open>executeTool\<close> runs them one after the
  other, each in the world the one before has left, and the world behind the last. They
  end before the first call on which \<open>executeTool\<close> throws.
\<close>

fun sequentialResults :: "'w BaseAgent \<Rightarrow> ToolCall list \<Rightarrow> 'w \<Rightarrow> ToolResult list \<times> 'w" where
  "sequentialResults self [] w = ([], w)"
| "sequentialResults self (toolCall # rest) w =
     (case executeTool self toolCall w of
        (Inr result, w') \<Rightarrow>
          (case sequentialResults self rest w' of (results, w'') \<Rightarrow> (result # results, w''))
      | (Inl e, w') \<Rightarrow> ([], w'))"

text \<open>
  The message of the error that leaves the dispatch of the tool calls of a response:
  that of the first call on which \<open>executeTool\<close> throws, if there is one.
\<close>

fun escapes :: "'w BaseAgent \<Rightarrow> ToolCall list \<Rightarrow> 'w \<Rightarrow> string option" where
  "escapes self [] w = None"
| "escapes self (toolCall # rest) w =
     (case executeTool self toolCall w of
        (Inr result, w') \<Rightarrow> escapes self rest w'
      | (Inl e, w') \<Rightarrow> Some e)"

text \<open>A tool that, on some arguments, throws \<open>null\<close> or \<open>undefined\<close>.\<close>

definition throwsNullish :: "'w Tool \<Rightarrow> bool" where
  "throwsNullish tool =
     (\<exists>args w. fst (tool_execute tool args w) = Inl ThrownNull
              \<or> fst (tool_execute tool args w) = Inl ThrownUndefined)"

text \<open>The messages of the \<open>TypeError\<close> that leaves \<open>executeTool\<close> behind such a tool.\<close>

definition nullishErrors :: "string list" where
  "nullishErrors =
     [''Cannot read properties of null (reading 'message')'',
      ''Cannot read properties of undefined (reading 'message')'']"

text \<open>One assistant message and one tool message for every call, in the order of the calls.\<close>

definition messagePairs :: "string \<Rightarrow> ToolCall list \<Rightarrow> ToolResult list \<Rightarrow> Message list" where
  "messagePairs responseContent calls results =
     concat (map (\<lambda>(toolCall, result). [assistantMessage responseContent toolCall, toolMessage result])
               (zip calls results))"

text \<open>The provider has a client in the model client.\<close>

definition clientConfigured :: "'w ModelClient \<Rightarrow> ModelProvider \<Rightarrow> bool" where
  "clientConfigured self p =
     (case p of
        OpenAI \<Rightarrow> openaiClients self ''openai'' \<noteq> None
      | LMStudio \<Rightarrow> openaiClients self ''lmstudio'' \<noteq> None
      | Anthropic \<Rightarrow> anthropicClient self \<noteq> None
      | Ollama \<Rightarrow> False)"

text \<open>
  The provider that \<open>streamComplete\<close> and \<open>complete\<close> resolve a model to (none where they
  address no backend), and the name by which the error of \<open>complete\<close> calls its client.
\<close>

definition streamProvider :: "(string \<rightharpoonup> ModelInfo) \<Rightarrow> string \<Rightarrow> ModelProvider option" where
  "streamProvider getModel model =
     (case getModel model of
        None \<Rightarrow> Some OpenAI
      | Some modelInfo \<Rightarrow> if provider modelInfo = Ollama then None else Some (provider modelInfo))"

definition completeProvider :: "(string \<rightharpoonup> ModelInfo) \<Rightarrow> string \<Rightarrow> ModelProvider option" where
  "completeProvider getModel model =
     (case getModel model of
        None \<Rightarrow>
          if prefix ''openai:'' model then Some OpenAI
          else if prefix ''anthropic:'' model then Some Anthropic
          else if prefix ''lmstudio:'' model then Some LMStudio
          else None
      | Some modelInfo \<Rightarrow> if provider modelInfo = Ollama then None else Some (provider modelInfo))"

definition clientLabel :: "ModelProvider \<Rightarrow> string" where
  "clientLabel p = (if p = Anthropic then ''Anthropic'' else providerName p)"

section \<open>Example inputs\<close>

text \<open>
  A fragment of the built-in \<open>JSON\<close>, right on the two texts \<open>{}\<close> and \<open>null\<close> and on the
  values they denote.
\<close>

definition exampleJSON :: JSON where
  "exampleJSON =
     \<lparr> JSON_stringify = (\<lambda>v. if v = JObject [] then ''{}'' else ''null''),
       JSON_parse = (\<lambda>s. if s = ''{}'' then Inr (JObject [])
                          else if s = ''null'' then Inr JNull
                          else Inl ''Unexpected token'') \<rparr>"

definition offlineSamantha :: Samantha where
  "offlineSamantha =
     \<lparr> modelId = None,
       SAMANTHA_SYSTEM_PROMPT = ''You are Samantha'',
       classificationPrompt = (\<lambda>input. ''Classify: '' @ input) \<rparr>"

definition onlineSamantha :: Samantha where
  "onlineSamantha = offlineSamantha \<lparr> modelId := Some ''openai:gpt-4o'' \<rparr>"

definition textResponse :: "string \<Rightarrow> CompletionResponse" where
  "textResponse text =
     \<lparr> resp_content = text, resp_toolCalls = None, usage = None, finishReason = Stop \<rparr>"

text \<open>A model that answers every request with the same text.\<close>

definition answering :: "string \<Rightarrow> unit Complete" where
  "answering text = (\<lambda>options w. (Inr (textResponse text), w))"

definition readA :: ToolCall where
  "readA = \<lparr> tc_id = ''call_1'', tc_name = ''read_file'', tc_arguments = JObject [] \<rparr>"

definition readB :: ToolCall where
  "readB = \<lparr> tc_id = ''call_2'', tc_name = ''list_pull_requests'', tc_arguments = JObject [] \<rparr>"

definition toolsResponse :: "ToolCall list \<Rightarrow> CompletionResponse" where
  "toolsResponse calls =
     \<lparr> resp_content = ''Let me look.'', resp_toolCalls = Some calls, usage = None,
       finishReason = Tool_calls \<rparr>"

text \<open>A model that answers every request with the same tool calls.\<close>

definition calling :: "ToolCall list \<Rightarrow> unit Complete" where
  "calling calls = (\<lambda>options w. (Inr (toolsResponse calls), w))"

text \<open>The parameter schema of the tool \<open>list_pull_requests\<close> of the GitHub agent.\<close>

definition listPullRequestsSchema :: ZodType where
  "listPullRequestsSchema =
     ZObject [(''repo'', ZDescribe ZString ''Repository name (owner/repo format)''),
              (''state'', ZOptional (ZEnum [''open'', ''closed'', ''all'']))]"


text \<open>A tool \<open>read_file\<close> whose promise is rejected with \<open>null\<close>.\<close>

definition rejectingTool :: "unit Tool" where
  "rejectingTool =
     \<lparr> tool_name = ''read_file'', tool_description = ''Read a file'',
       tool_parameters = ZObject [(''path'', ZString)],
       tool_execute = (\<lambda>args w. (Inl ThrownNull, w)) \<rparr>"

definition agentWith :: "unit Tool list \<Rightarrow> unit BaseAgent" where
  "agentWith ts =
     \<lparr> systemPrompt = ''You are the coding agent.'', maxTokens = 4096, temperature = 7 / 10,
       conversationHistory = [],
       agent_tools = map (\<lambda>t. (tool_name t, t)) ts,
       agent_modelId = Some ''openai:gpt-4o'' \<rparr>"

definition exampleTask :: Task where
  "exampleTask =
     \<lparr> task_id = ''task-1'', task_title = ''Read the notes'',
       task_description = ''Read notes.txt and summarise it'', task_type = Work,
       assignedAgent = None, task_priority = Medium, status = In_progress,
       task_result = None \<rparr>"

definition listPullRequestsTool :: "unit Tool" where
  "listPullRequestsTool =
     \<lparr> tool_name = ''list_pull_requests'',
       tool_description = ''List pull requests in a repository'',
       tool_parameters = listPullRequestsSchema,
       tool_execute = (\<lambda>args w.
         (Inr \<lparr> toolCallId = ''generated-id'', success = True,
                tr_output = Some ''[Mock] Listed PRs'', tr_error = None \<rparr>, w)) \<rparr>"

definition gpt4o :: ModelInfo where
  "gpt4o =
     \<lparr> info_id = ''openai:gpt-4o'', info_name = ''GPT-4o'', provider = OpenAI, isLocal = False,
       capabilities =
         \<lparr> contextWindow = 128000, supportsTools = True, supportsVision = True,
           supportsStreaming = True, maxOutputTokens = 4096 \<rparr>,
       isAvailable = True \<rparr>"

definition askGpt4o :: "unit CompletionOptions" where
  "askGpt4o =
     \<lparr> opt_model = ''openai:gpt-4o'',
       opt_messages =
         [\<lparr> role = RoleUser, content = ''Hello'', toolCalls = None, toolResults = None \<rparr>],
       opt_tools = None, opt_maxTokens = None, opt_temperature = None \<rparr>"

text \<open>
  A text between double quotes, and a fragment of the built-in \<open>JSON\<close> that is right on
  the argument payloads \<open>{ path: 'notes.txt' }\<close>, \<open>{ repo: 'tjdoomer/Hemingway' }\<close>,
  \<open>{ limit: Infinity }\<close>, \<open>{ limit: null }\<close> and \<open>{}\<close>, and on the texts that
  \<open>JSON.stringify\<close> writes for them.
\<close>

definition quoted :: "string \<Rightarrow> string" where
  "quoted s = CHR 0x22 # s @ [CHR 0x22]"

definition pathText :: string where
  "pathText = ''{'' @ quoted ''path'' @ '':'' @ quoted ''notes.txt'' @ ''}''"

definition repoText :: string where
  "repoText = ''{'' @ quoted ''repo'' @ '':'' @ quoted ''tjdoomer/Hemingway'' @ ''}''"

definition limitNullText :: string where
  "limitNullText = ''{'' @ quoted ''limit'' @ '':null}''"

definition wireJSON :: JSON where
  "wireJSON =
     \<lparr> JSON_stringify =
         (\<lambda>v. if v = JObject [(''path'', JString ''notes.txt'')] then pathText
              else if v = JObject [(''repo'', JString ''tjdoomer/Hemingway'')] then repoText
              else if v = JObject [(''limit'', JInfinity)] then limitNullText
              else if v = JObject [(''limit'', JNull)] then limitNullText
              else JSON_stringify exampleJSON v),
       JSON_parse =
         (\<lambda>s. if s = pathText then Inr (JObject [(''path'', JString ''notes.txt'')])
              else if s = repoText then Inr (JObject [(''repo'', JString ''tjdoomer/Hemingway'')])
              else if s = limitNullText then Inr (JObject [(''limit'', JNull)])
              else JSON_parse exampleJSON s) \<rparr>"

definition readNotes :: ToolCall where
  "readNotes =
     \<lparr> tc_id = ''call_1'', tc_name = ''read_file'',
       tc_arguments = JObject [(''path'', JString ''notes.txt'')] \<rparr>"

definition listRepo :: ToolCall where
  "listRepo =
     \<lparr> tc_id = ''call_2'', tc_name = ''list_pull_requests'',
       tc_arguments = JObject [(''repo'', JString ''tjdoomer/Hemingway'')] \<rparr>"

text \<open>
  A call as \<open>completeOpenAI\<close> reads it from an argument text whose member \<open>limit\<close> is
  \<open>1e999\<close>.
\<close>

definition listLimit :: ToolCall where
  "listLimit =
     \<lparr> tc_id = ''call_2'', tc_name = ''list_pull_requests'',
       tc_arguments = JObject [(''limit'', JInfinity)] \<rparr>"

definition twoCallsMessage :: Message where
  "twoCallsMessage =
     \<lparr> role = RoleAssistant, content = ''Let me look.'',
       toolCalls = Some [readNotes, listRepo], toolResults = None \<rparr>"

definition lossyMessage :: Message where
  "lossyMessage =
     \<lparr> role = RoleAssistant, content = ''Let me look.'',
       toolCalls = Some [readNotes, listLimit], toolResults = None \<rparr>"


text \<open>What \<open>executeTool\<close> returns for a call to a tool that is not registered.\<close>

definition unknownToolResult :: "ToolCall \<Rightarrow> ToolResult" where
  "unknownToolResult toolCall =
     \<lparr> toolCallId = tc_id toolCall, success = False, tr_output = None,
       tr_error = Some (''Unknown tool: '' @ tc_name toolCall) \<rparr>"


definition failedWith :: "string \<Rightarrow> TaskResult" where
  "failedWith message = \<lparr> res_success = False, res_output = None, res_error = Some message \<rparr>"

section \<open>Heuristic classification\<close>

lemma str_includes_sublist: "str_includes s sub \<longleftrightarrow> sublist sub s"
  by (induction s) (auto simp: sublist_Cons_right)

lemma sublist_toLowerCase:
  "sublist k (toLowerCase input) \<longleftrightarrow> (\<exists>s. sublist s input \<and> toLowerCase s = k)"
  unfolding toLowerCase_def
  by (metis map_mono_sublist sublist_map_rightE)

lemma countIndicators_filter:
  "countIndicators l ks n = n + length (filter (str_includes l) ks)"
  by (induction ks arbitrary: n) auto

lemma countIndicators_matchCount:
  "countIndicators (toLowerCase input) ks 0 = matchCount ks input"
proof -
  have "str_includes (toLowerCase input) = (\<lambda>k. \<exists>s. sublist s input \<and> toLowerCase s = k)"
    by (simp add: fun_eq_iff str_includes_sublist sublist_toLowerCase)
  then show ?thesis
    by (simp add: countIndicators_filter matchCount_def)
qed

lemma heuristicClassify_type:
  "type (intent (heuristicClassify input)) =
     (if matchCount workIndicators input > matchCount personalIndicators input then Known Work
      else if matchCount personalIndicators input > matchCount workIndicators input
        then Known Personal
      else Unclear)"
  by (simp add: heuristicClassify_def Let_def countIndicators_matchCount)

lemma heuristicClassify_confidence:
  "confidence (intent (heuristicClassify input)) =
     min (9 / 10)
       (1 / 2 + \<bar>real (matchCount workIndicators input) - real (matchCount personalIndicators input)\<bar>
          / real (max (matchCount workIndicators input + matchCount personalIndicators input) 1)
          * (2 / 5))"
  by (simp add: heuristicClassify_def Let_def countIndicators_matchCount)

text \<open>
  Claim C8. For every input, the heuristic classification has type \<open>work\<close> exactly when
  more work indicators than personal indicators match the input (as case-insensitive
  substrings), type \<open>personal\<close> exactly when more personal indicators match, and type
  \<open>unclear\<close> exactly on a tie; its confidence is
  \<open>min(0.9, 0.5 + 0.4 * |workCount - personalCount| / max(workCount + personalCount, 1))\<close>.
  In particular three work matches and no personal match give confidence 0.9 and type
  \<open>work\<close>.
\<close>

theorem heuristicClassify_scores:
  fixes input :: string
  shows
  "(type (intent (heuristicClassify input)) = Known Work
      \<longleftrightarrow> matchCount workIndicators input > matchCount personalIndicators input)
   \<and> (type (intent (heuristicClassify input)) = Known Personal
      \<longleftrightarrow> matchCount personalIndicators input > matchCount workIndicators input)
   \<and> (type (intent (heuristicClassify input)) = Unclear
      \<longleftrightarrow> matchCount workIndicators input = matchCount personalIndicators input)
   \<and> confidence (intent (heuristicClassify input)) =
       min (9 / 10)
         (1 / 2 + 4 / 10 * \<bar>real (matchCount workIndicators input)
                             - real (matchCount personalIndicators input)\<bar>
            / real (max (matchCount workIndicators input + matchCount personalIndicators input) 1))
   \<and> (matchCount workIndicators input = 3 \<and> matchCount personalIndicators input = 0
        \<longrightarrow> confidence (intent (heuristicClassify input)) = 9 / 10
          \<and> type (intent (heuristicClassify input)) = Known Work)"
proof -
  let ?w = "matchCount workIndicators input" and ?p = "matchCount personalIndicators input"
  have t: "type (intent (heuristicClassify input)) =
     (if ?w > ?p then Known Work else if ?p > ?w then Known Personal else Unclear)"
    by (rule heuristicClassify_type)
  have c: "confidence (intent (heuristicClassify input)) =
     min (9 / 10) (1 / 2 + \<bar>real ?w - real ?p\<bar> / real (max (?w + ?p) 1) * (2 / 5))"
    by (rule heuristicClassify_confidence)
  have 1: "type (intent (heuristicClassify input)) = Known Work \<longleftrightarrow> ?w > ?p"
    unfolding t by simp
  have 2: "type (intent (heuristicClassify input)) = Known Personal \<longleftrightarrow> ?p > ?w"
    unfolding t by simp
  have 3: "type (intent (heuristicClassify input)) = Unclear \<longleftrightarrow> ?w = ?p"
    unfolding t by auto
  have 4: "confidence (intent (heuristicClassify input)) =
     min (9 / 10) (1 / 2 + 4 / 10 * \<bar>real ?w - real ?p\<bar> / real (max (?w + ?p) 1))"
  proof -
    have "x / y * (2 / 5) = 4 / 10 * x / y" for x y :: real
      by (simp add: mult.commute)
    then show ?thesis unfolding c by (simp only:)
  qed
  have 5: "?w = 3 \<and> ?p = 0 \<longrightarrow> confidence (intent (heuristicClassify input)) = 9 / 10
          \<and> type (intent (heuristicClassify input)) = Known Work"
    unfolding c t by simp
  from 1 2 3 4 5 show ?thesis by blast
qed

lemma work_example:
  "matchCount workIndicators ''Fix the bug in the API code'' = 3
   \<and> matchCount personalIndicators ''Fix the bug in the API code'' = 0"
  unfolding countIndicators_matchCount [symmetric] by code_simp

theorem heuristicClassify_scores_witness:
  "matchCount workIndicators ''Fix the bug in the API code'' = 3
   \<and> matchCount personalIndicators ''Fix the bug in the API code'' = 0
   \<and> confidence (intent (heuristicClassify ''Fix the bug in the API code'')) = 9 / 10
   \<and> type (intent (heuristicClassify ''Fix the bug in the API code'')) = Known Work"
  using heuristicClassify_scores [of "''Fix the bug in the API code''"] work_example
  by simp

lemma mixed_example:
  "matchCount workIndicators ''review code bug api deploy family friend vacation'' = 5
   \<and> matchCount personalIndicators ''review code bug api deploy family friend vacation'' = 3"
  unfolding countIndicators_matchCount [symmetric] by code_simp

lemma mixed_confidence:
  "confidence (intent (heuristicClassify ''review code bug api deploy family friend vacation''))
     = 3 / 5"
  by (simp add: heuristicClassify_confidence mixed_example)

section \<open>Explicit tags\<close>

text \<open>
  A text has an unclosed bracket when an opening bracket stands behind its last closing
  bracket. Behind such a text the tag expression of \<open>extractTags\<close> is inside a tag;
  behind any other text it starts afresh.
\<close>

lemma unclosedBracket_Cons:
  assumes "unclosedBracket cs"
  shows "unclosedBracket (c # cs)"
proof (cases "CHR '']'' \<in> set cs")
  case True
  then have "takeWhile (\<lambda>x. x \<noteq> CHR '']'') (rev cs @ [c])
               = takeWhile (\<lambda>x. x \<noteq> CHR '']'') (rev cs)"
    by (intro takeWhile_append1 [of "CHR '']''"]) simp_all
  with assms show ?thesis
    by (simp add: unclosedBracket_def)
next
  case False
  then have "takeWhile (\<lambda>x. x \<noteq> CHR '']'') (rev cs @ [c])
               = rev cs @ takeWhile (\<lambda>x. x \<noteq> CHR '']'') [c]"
    by (intro takeWhile_append2) auto
  moreover from assms have "CHR ''['' \<in> set cs"
    by (auto simp: unclosedBracket_def dest: set_takeWhileD)
  ultimately show ?thesis
    by (simp add: unclosedBracket_def)
qed

lemma unclosedBracket_no_close:
  "CHR '']'' \<notin> set cs \<Longrightarrow> unclosedBracket (CHR ''['' # cs)"
  by (simp add: unclosedBracket_def takeWhile_append)

lemma unclosedBracket_behind:
  "unclosedBracket (before @ CHR '']'' # behind) \<longleftrightarrow> unclosedBracket behind"
  by (simp add: unclosedBracket_def takeWhile_tail)

text \<open>
  The matches in a text without unclosed bracket do not depend on what follows it, so
  the tags of the whole input are the tags of that text followed by the tags of the rest.
\<close>

lemma tagRegex_other:
  "c \<noteq> CHR ''['' \<Longrightarrow> tagRegex (c # cs) = Inr c # tagRegex cs"
  by (simp add: tagRegex.simps Let_def)

lemma tagRegex_empty_group:
  "tagRegex (CHR ''['' # CHR '']'' # cs) = Inr CHR ''['' # Inr CHR '']'' # tagRegex cs"
  by (simp add: tagRegex.simps Let_def)

lemma tagRegex_tag:
  assumes "g \<noteq> []" and "CHR '']'' \<notin> set g"
  shows "tagRegex (CHR ''['' # g @ CHR '']'' # post) = Inl g # tagRegex post"
proof -
  have "takeWhile (\<lambda>x. x \<noteq> CHR '']'') (g @ CHR '']'' # post) = g"
    using assms(2) by (induction g) auto
  moreover have "dropWhile (\<lambda>x. x \<noteq> CHR '']'') (g @ CHR '']'' # post) = CHR '']'' # post"
    using assms(2) by (induction g) auto
  ultimately show ?thesis
    using assms(1) by (simp add: tagRegex.simps Let_def)
qed

lemma tagRegex_append:
  "\<not> unclosedBracket pre \<Longrightarrow> tagRegex (pre @ rest) = tagRegex pre @ tagRegex rest"
proof (induction "length pre" arbitrary: pre rule: less_induct)
  case less
  show ?case
  proof (cases pre)
    case Nil
    then show ?thesis by (simp add: tagRegex.simps)
  next
    case (Cons c cs)
    show ?thesis
    proof (cases "c = CHR ''[''")
      case False
      have "\<not> unclosedBracket cs"
        using less.prems Cons unclosedBracket_Cons by blast
      then have "tagRegex (cs @ rest) = tagRegex cs @ tagRegex rest"
        using less.hyps [of cs] Cons by simp
      then show ?thesis
        using Cons False by (simp add: tagRegex_other)
    next
      case True
      have "CHR '']'' \<in> set cs"
        using less.prems Cons True unclosedBracket_no_close by blast
      then obtain g tail where cs: "cs = g @ CHR '']'' # tail" and g: "CHR '']'' \<notin> set g"
        using split_list_first [of "CHR '']''" cs] by blast
      have "\<not> unclosedBracket ((c # g) @ CHR '']'' # tail)"
        using less.prems Cons cs by simp
      then have "\<not> unclosedBracket tail"
        using unclosedBracket_behind [of "c # g" tail] by simp
      then have ih: "tagRegex (tail @ rest) = tagRegex tail @ tagRegex rest"
        using less.hyps [of tail] Cons cs by simp
      show ?thesis
      proof (cases "g = []")
        case True
        then show ?thesis
          using Cons \<open>c = CHR ''[''\<close> cs ih by (simp add: tagRegex_empty_group)
      next
        case False
        then show ?thesis
          using Cons \<open>c = CHR ''[''\<close> cs ih g tagRegex_tag [of g "tail @ rest"]
            tagRegex_tag [of g tail]
          by simp
      qed
    qed
  qed
qed

lemma tags_append:
  "\<not> unclosedBracket pre \<Longrightarrow>
     tags (extractTags (pre @ rest)) = tags (extractTags pre) @ tags (extractTags rest)"
  by (simp add: extractTags_def tagRegex_append)

lemma tags_tag:
  assumes "g \<noteq> []" and "CHR '']'' \<notin> set g"
  shows "tags (extractTags (CHR ''['' # g @ CHR '']'' # post))
           = toLowerCase g # tags (extractTags post)"
  using assms by (simp add: extractTags_def tagRegex_tag)

lemma classifyTask_explicit:
  "classifyTask js modelClient_complete self input (Some t) w
     = (Inr (Structured (quickClassify input t)), w)"
  by (simp add: classifyTask_def)

lemma quickClassify_intent:
  "confidence (intent (quickClassify input t)) = 1 \<and> type (intent (quickClassify input t)) = Known t"
  by (simp add: quickClassify_def Let_def)

text \<open>
  A text that reads \<open>work\<close> or \<open>personal\<close> in lower case is not empty and has no
  closing bracket.
\<close>

lemma tag_text:
  assumes "toLowerCase g = ''work'' \<or> toLowerCase g = ''personal''"
  shows "g \<noteq> [] \<and> CHR '']'' \<notin> set g"
proof
  show "g \<noteq> []"
    using assms by (auto simp: toLowerCase_def)
  show "CHR '']'' \<notin> set g"
  proof
    assume "CHR '']'' \<in> set g"
    then have "toLowerCaseChar CHR '']'' \<in> set (toLowerCase g)"
      by (simp add: toLowerCase_def)
    moreover have "toLowerCaseChar CHR '']'' = CHR '']''"
      by (simp add: toLowerCaseChar_def)
    ultimately show False
      using assms by auto
  qed
qed

lemma tags_bracketed:
  assumes "\<not> unclosedBracket pre"
    and "toLowerCase g = ''work'' \<or> toLowerCase g = ''personal''"
  shows "tags (extractTags (pre @ CHR ''['' # g @ CHR '']'' # post))
           = tags (extractTags pre) @ toLowerCase g # tags (extractTags post)"
  using assms(1) tag_text [OF assms(2)]
  by (simp add: tags_append tags_tag)

text \<open>
  Claim C7, as amended. For every input string carrying an explicit \<open>[work]\<close> or
  \<open>[personal]\<close> tag (in any letter case) that does not stand inside an unclosed bracket
  (no opening bracket stands behind the last closing bracket of the text before the tag),
  the tags that \<open>extractTags\<close> finds are those of the text before the tag, the tag, and
  those of the text behind it; \<open>hasExplicitAgentType\<close> gives a type \<open>t\<close>, which is
  \<open>work\<close> exactly when the tag or another tag of the input is \<open>work\<close> and \<open>personal\<close>
  otherwise; and the classification of the input without its tags is \<open>quickClassify\<close>
  for \<open>t\<close>: confidence exactly 1 and type \<open>t\<close>, whatever keywords the input contains.
  Neither the heuristic scoring nor the model decides: the result is the same for every
  model client and the world is the one before the call.
\<close>

theorem explicit_tag_classification:
  assumes "\<not> unclosedBracket pre"
    and "toLowerCase g = ''work'' \<or> toLowerCase g = ''personal''"
  shows "\<exists>t c. hasExplicitAgentType (pre @ CHR ''['' # g @ CHR '']'' # post) = Some t
           \<and> tags (extractTags (pre @ CHR ''['' # g @ CHR '']'' # post))
               = tags (extractTags pre) @ toLowerCase g # tags (extractTags post)
           \<and> (t = Work \<longleftrightarrow>
                 toLowerCase g = ''work''
                 \<or> ''work'' \<in> set (tags (extractTags pre))
                 \<or> ''work'' \<in> set (tags (extractTags post)))
           \<and> classifyTask js modelClient_complete self
                (cleanInput (extractTags (pre @ CHR ''['' # g @ CHR '']'' # post)))
                (hasExplicitAgentType (pre @ CHR ''['' # g @ CHR '']'' # post)) w
               = (Inr (Structured c), w)
           \<and> c = quickClassify
                   (cleanInput (extractTags (pre @ CHR ''['' # g @ CHR '']'' # post))) t
           \<and> confidence (intent c) = 1
           \<and> type (intent c) = Known t"
proof -
  let ?input = "pre @ CHR ''['' # g @ CHR '']'' # post"
  have ts: "tags (extractTags ?input)
              = tags (extractTags pre) @ toLowerCase g # tags (extractTags post)"
    using assms by (rule tags_bracketed)
  show ?thesis
  proof (cases "''work'' \<in> set (tags (extractTags ?input))")
    case True
    then have "hasExplicitAgentType ?input = Some Work"
      by (simp add: hasExplicitAgentType_def)
    moreover from True have "toLowerCase g = ''work''
                 \<or> ''work'' \<in> set (tags (extractTags pre))
                 \<or> ''work'' \<in> set (tags (extractTags post))"
      unfolding ts by auto
    ultimately show ?thesis
      using ts by (simp add: classifyTask_explicit quickClassify_intent)
  next
    case False
    then have nw: "\<not> (toLowerCase g = ''work''
                 \<or> ''work'' \<in> set (tags (extractTags pre))
                 \<or> ''work'' \<in> set (tags (extractTags post)))"
      unfolding ts by auto
    with assms(2) have "toLowerCase g = ''personal''"
      by simp
    then have "''personal'' \<in> set (tags (extractTags ?input))"
      unfolding ts by simp
    with False have "hasExplicitAgentType ?input = Some Personal"
      by (simp add: hasExplicitAgentType_def)
    then show ?thesis
      using ts nw by (simp add: classifyTask_explicit quickClassify_intent)
  qed
qed

lemma tagged_example:
  "\<not> unclosedBracket ''Please [x] ''
   \<and> toLowerCase ''Personal'' = ''personal''
   \<and> tags (extractTags ''Please [x] '') = [''x'']
   \<and> tags (extractTags '' fix the bug in the API code'') = []
   \<and> cleanInput (extractTags ''Please [x] [Personal] fix the bug in the API code'')
       = ''Please   fix the bug in the API code''"
  by code_simp

theorem explicit_tag_classification_witness:
  "\<not> unclosedBracket ''Please [x] ''
   \<and> toLowerCase ''Personal'' = ''personal''
   \<and> hasExplicitAgentType ''Please [x] [Personal] fix the bug in the API code'' = Some Personal
   \<and> (\<exists>c. classifyTask exampleJSON (answering ''{}'') onlineSamantha
              ''Please   fix the bug in the API code'' (Some Personal) ()
              = (Inr (Structured c), ())
          \<and> confidence (intent c) = 1 \<and> type (intent c) = Known Personal)"
proof -
  let ?input = "''Please [x] '' @ CHR ''['' # ''Personal'' @ CHR '']'' # '' fix the bug in the API code''"
  have inp: "?input = ''Please [x] [Personal] fix the bug in the API code''"
    by simp
  have h1: "\<not> unclosedBracket ''Please [x] ''"
    and h2: "toLowerCase ''Personal'' = ''work'' \<or> toLowerCase ''Personal'' = ''personal''"
    using tagged_example by simp_all
  from explicit_tag_classification
         [OF h1 h2, of "'' fix the bug in the API code''" exampleJSON "answering ''{}''"
            onlineSamantha "()"]
  obtain t c where all:
    "hasExplicitAgentType ?input = Some t
     \<and> tags (extractTags ?input)
         = tags (extractTags ''Please [x] '') @ toLowerCase ''Personal''
             # tags (extractTags '' fix the bug in the API code'')
     \<and> (t = Work \<longleftrightarrow>
           toLowerCase ''Personal'' = ''work''
           \<or> ''work'' \<in> set (tags (extractTags ''Please [x] ''))
           \<or> ''work'' \<in> set (tags (extractTags '' fix the bug in the API code'')))
     \<and> classifyTask exampleJSON (answering ''{}'') onlineSamantha
          (cleanInput (extractTags ?input)) (hasExplicitAgentType ?input) ()
         = (Inr (Structured c), ())
     \<and> c = quickClassify (cleanInput (extractTags ?input)) t
     \<and> confidence (intent c) = 1
     \<and> type (intent c) = Known t"
    apply (elim exE)
    apply (rule that)
    apply assumption
    done
  from all have e: "hasExplicitAgentType ?input = Some t"
    and w: "t = Work \<longleftrightarrow>
           toLowerCase ''Personal'' = ''work''
           \<or> ''work'' \<in> set (tags (extractTags ''Please [x] ''))
           \<or> ''work'' \<in> set (tags (extractTags '' fix the bug in the API code''))"
    and cl: "classifyTask exampleJSON (answering ''{}'') onlineSamantha
          (cleanInput (extractTags ?input)) (hasExplicitAgentType ?input) ()
         = (Inr (Structured c), ())"
    and i: "confidence (intent c) = 1" "type (intent c) = Known t"
    by blast+
  from w have "t \<noteq> Work"
    using tagged_example by simp
  then have t: "t = Personal"
    by (cases t) simp_all
  have C: "cleanInput (extractTags ?input) = ''Please   fix the bug in the API code''"
    using tagged_example by simp
  have e': "hasExplicitAgentType ''Please [x] [Personal] fix the bug in the API code''
              = Some Personal"
    using e unfolding t by simp
  have cl': "classifyTask exampleJSON (answering ''{}'') onlineSamantha
              ''Please   fix the bug in the API code'' (Some Personal) ()
              = (Inr (Structured c), ())"
    using cl by (simp only: e t C)
  have "\<exists>c. classifyTask exampleJSON (answering ''{}'') onlineSamantha
              ''Please   fix the bug in the API code'' (Some Personal) ()
              = (Inr (Structured c), ())
          \<and> confidence (intent c) = 1 \<and> type (intent c) = Known Personal"
    using cl' i unfolding t by (intro exI [of _ c]) simp
  with h1 e' show ?thesis
    using tagged_example by simp
qed

lemma swallowed_example:
  "tags (extractTags ''[urgent [personal] deploy the api'') = [''urgent [personal'']
   \<and> cleanInput (extractTags ''[urgent [personal] deploy the api'') = ''deploy the api''
   \<and> countIndicators (toLowerCase ''deploy the api'') workIndicators 0 = 2
   \<and> countIndicators (toLowerCase ''deploy the api'') personalIndicators 0 = 0"
  by code_simp

text \<open>
  The claim as stated fails on an input whose tag stands behind an unclosed bracket: the
  expression matches from that bracket on, the tag found is \<open>urgent [personal\<close>, no
  explicit type is recognised, and the heuristic scoring types the input \<open>work\<close> with
  confidence 0.9.
\<close>

theorem swallowed_tag_counterexample:
  "hasExplicitAgentType ''[urgent [personal] deploy the api'' = None
   \<and> cleanInput (extractTags ''[urgent [personal] deploy the api'') = ''deploy the api''
   \<and> classifyTask exampleJSON (answering ''{}'') onlineSamantha ''deploy the api'' None ()
       = (Inr (Structured (heuristicClassify ''deploy the api'')), ())
   \<and> type (intent (heuristicClassify ''deploy the api'')) = Known Work
   \<and> confidence (intent (heuristicClassify ''deploy the api'')) = 9 / 10"
proof -
  have t: "type (intent (heuristicClassify ''deploy the api'')) = Known Work"
    and c: "confidence (intent (heuristicClassify ''deploy the api'')) = 9 / 10"
    using swallowed_example by (simp_all add: heuristicClassify_def Let_def)
  have "classifyTask exampleJSON (answering ''{}'') onlineSamantha ''deploy the api'' None ()
       = (Inr (Structured (heuristicClassify ''deploy the api'')), ())"
    using c by (simp add: classifyTask_def Let_def)
  with t c show ?thesis
    using swallowed_example by (simp add: hasExplicitAgentType_def)
qed

section \<open>The fallback to the model\<close>

lemma jsonMatch_span:
  assumes "CHR ''{'' \<notin> set pre" and "CHR ''}'' \<notin> set post"
  shows "jsonMatch (pre @ CHR ''{'' # mid @ CHR ''}'' # post) = Some (CHR ''{'' # mid @ ''}'')"
proof -
  have 1: "dropWhile (\<lambda>c. c \<noteq> CHR ''{'') (pre @ CHR ''{'' # mid @ CHR ''}'' # post)
           = CHR ''{'' # mid @ CHR ''}'' # post"
    using assms(1) by (auto simp: dropWhile_append3)
  have 2: "dropWhile (\<lambda>c. c \<noteq> CHR ''}'') (rev post @ CHR ''}'' # rev mid) = CHR ''}'' # rev mid"
    using assms(2) by (auto simp: dropWhile_append3)
  show ?thesis
    unfolding jsonMatch_def Let_def 1 by (simp add: 2)
qed

lemma classifyTask_returns:
  "\<exists>c w'. classifyTask js modelClient_complete self input explicitType w = (Inr c, w')"
  by (auto simp: classifyTask_def Let_def split: option.splits list.splits sum.splits prod.splits)

lemma classifyTask_no_model:
  "modelId self = None \<or> modelId self = Some [] \<Longrightarrow>
     classifyTask js modelClient_complete self input None w
       = (Inr (Structured (heuristicClassify input)), w)"
  by (auto simp: classifyTask_def Let_def)

lemma classifyTask_try_unparseable:
  assumes "modelClient_complete (classificationRequest self model prompt) w = (Inr response, w')"
    and "unparseable js (resp_content response)"
  shows "fst (classifyTask_try js modelClient_complete self model prompt w) \<noteq> Inr (Some v)"
  using assms
  by (auto simp: classifyTask_try_def unparseable_def split: option.splits sum.splits)

lemma classifyTask_unparseable:
  assumes "modelId self = Some model" and "model \<noteq> []"
    and "modelClient_complete (classificationRequest self model (classificationPrompt self input)) w
           = (Inr response, w')"
    and "unparseable js (resp_content response)"
  shows "fst (classifyTask js modelClient_complete self input None w)
           = Inr (Structured (heuristicClassify input))"
proof -
  obtain r w2 where
    t: "classifyTask_try js modelClient_complete self model (classificationPrompt self input) w
          = (r, w2)"
    by (cases "classifyTask_try js modelClient_complete self model
                 (classificationPrompt self input) w")
  have "r \<noteq> Inr (Some v)" for v
    using classifyTask_try_unparseable
            [where modelClient_complete = modelClient_complete and v = v, OF assms(3,4)] t
    by simp
  then have "r = Inr None \<or> (\<exists>e. r = Inl e)"
    by (cases r) auto
  moreover obtain c cs where "model = c # cs"
    using assms(2) by (cases model) auto
  ultimately show ?thesis
    using assms(1) t by (auto simp: classifyTask_def Let_def)
qed

text \<open>
  Claim C5. \<open>classifyTask\<close> never throws: for every input, explicit type, model client and
  world it returns a classification. For an input without explicit type (the case in
  which stage 1 runs), the classification it returns is the stage-1 heuristic result
  when no model is configured (the model id is \<open>null\<close> or empty), and also when a model is
  configured and its response text is unparseable (no JSON object is matched in it, or \<open>JSON.parse\<close> throws on the match).
\<close>

theorem classifyTask_falls_back_to_heuristic:
  "(\<exists>c w'. classifyTask js modelClient_complete self input explicitType w = (Inr c, w'))
   \<and> (modelId self = None \<or> modelId self = Some [] \<longrightarrow>
        classifyTask js modelClient_complete self input None w
          = (Inr (Structured (heuristicClassify input)), w))
   \<and> (modelId self = Some model \<and> model \<noteq> []
        \<and> modelClient_complete
             (classificationRequest self model (classificationPrompt self input)) w
             = (Inr response, w')
        \<and> unparseable js (resp_content response) \<longrightarrow>
        fst (classifyTask js modelClient_complete self input None w)
          = Inr (Structured (heuristicClassify input)))"
proof (intro conjI impI)
  show "\<exists>c w'. classifyTask js modelClient_complete self input explicitType w = (Inr c, w')"
    by (rule classifyTask_returns)
next
  assume "modelId self = None \<or> modelId self = Some []"
  then show "classifyTask js modelClient_complete self input None w
               = (Inr (Structured (heuristicClassify input)), w)"
    by (rule classifyTask_no_model)
next
  assume "modelId self = Some model \<and> model \<noteq> []
        \<and> modelClient_complete
             (classificationRequest self model (classificationPrompt self input)) w
             = (Inr response, w')
        \<and> unparseable js (resp_content response)"
  then have "modelId self = Some model" and "model \<noteq> []"
    and "modelClient_complete
           (classificationRequest self model (classificationPrompt self input)) w
           = (Inr response, w')"
    and "unparseable js (resp_content response)"
    by simp_all
  then show "fst (classifyTask js modelClient_complete self input None w)
               = Inr (Structured (heuristicClassify input))"
    by (rule classifyTask_unparseable)
qed

lemma prose_unparseable:
  "unparseable exampleJSON ''I am not sure how to classify this request.''"
  by (simp add: unparseable_def jsonMatch_def)

theorem classifyTask_falls_back_to_heuristic_witness:
  "modelId offlineSamantha = None
   \<and> classifyTask exampleJSON (answering ''I am not sure how to classify this request.'')
        offlineSamantha ''review code bug api deploy family friend vacation'' None ()
       = (Inr (Structured (heuristicClassify ''review code bug api deploy family friend vacation'')), ())
   \<and> modelId onlineSamantha = Some ''openai:gpt-4o''
   \<and> unparseable exampleJSON ''I am not sure how to classify this request.''
   \<and> fst (classifyTask exampleJSON (answering ''I am not sure how to classify this request.'')
             onlineSamantha ''review code bug api deploy family friend vacation'' None ())
       = Inr (Structured (heuristicClassify ''review code bug api deploy family friend vacation''))
   \<and> confidence (intent (heuristicClassify ''review code bug api deploy family friend vacation''))
       = 3 / 5"
  using classifyTask_falls_back_to_heuristic
          [of exampleJSON "answering ''I am not sure how to classify this request.''"
              offlineSamantha "''review code bug api deploy family friend vacation''" None "()"]
        classifyTask_falls_back_to_heuristic
          [of exampleJSON "answering ''I am not sure how to classify this request.''"
              onlineSamantha "''review code bug api deploy family friend vacation''" None "()"
              "''openai:gpt-4o''"
              "textResponse ''I am not sure how to classify this request.''" "()"]
        prose_unparseable mixed_confidence
  by (simp add: offlineSamantha_def onlineSamantha_def answering_def textResponse_def)

text \<open>
  Claim C6, as amended. The classifier extracts the text from the first opening brace to
  the last closing brace of the response. So for every response text made of a JSON
  object between two pieces of prose, where no opening brace stands before the object
  and no closing brace stands behind it, the classifier extracts exactly the object and
  returns what \<open>JSON.parse\<close> makes of it.
\<close>

theorem jsonMatch_first_to_last_brace:
  assumes "CHR ''{'' \<notin> set before" and "CHR ''}'' \<notin> set after"
  shows "jsonMatch (before @ CHR ''{'' # body @ CHR ''}'' # after) = Some (CHR ''{'' # body @ ''}'')
    \<and> (modelId self = Some model \<and> model \<noteq> []
        \<and> \<not> confidence (intent (heuristicClassify input)) > 8 / 10
        \<and> modelClient_complete
             (classificationRequest self model (classificationPrompt self input)) w
             = (Inr response, w')
        \<and> resp_content response = before @ CHR ''{'' # body @ CHR ''}'' # after
        \<and> JSON_parse js (CHR ''{'' # body @ ''}'') = Inr v \<longrightarrow>
        classifyTask js modelClient_complete self input None w = (Inr (Parsed v), w'))"
proof -
  have "jsonMatch (before @ CHR ''{'' # body @ CHR ''}'' # after) = Some (CHR ''{'' # body @ ''}'')"
    using assms by (rule jsonMatch_span)
  then show ?thesis
    by (cases model) (simp_all add: classifyTask_def classifyTask_try_def Let_def)
qed

theorem jsonMatch_first_to_last_brace_witness:
  "CHR ''{'' \<notin> set ''Sure: '' \<and> CHR ''}'' \<notin> set '' (done)''
   \<and> jsonMatch ''Sure: {} (done)'' = Some ''{}''
   \<and> classifyTask exampleJSON (answering ''Sure: {} (done)'') onlineSamantha
        ''review code bug api deploy family friend vacation'' None ()
       = (Inr (Parsed (JObject [])), ())"
  using jsonMatch_first_to_last_brace
          [of "''Sure: ''" "'' (done)''" "[]" onlineSamantha "''openai:gpt-4o''"
              "''review code bug api deploy family friend vacation''"
              "answering ''Sure: {} (done)''" "()" "textResponse ''Sure: {} (done)''" "()"
              exampleJSON "JObject []"]
        mixed_confidence
  by (simp add: onlineSamantha_def offlineSamantha_def answering_def textResponse_def
        exampleJSON_def)

text \<open>
  The claim as stated fails on a response whose prose behind the object contains a
  closing brace: the match runs on to that brace.
\<close>

theorem jsonMatch_greedy_counterexample:
  "jsonMatch (''Sure: '' @ ''{}'' @ '' (close with })'') = Some ''{} (close with }''
   \<and> jsonMatch (''Sure: '' @ ''{}'' @ '' (close with })'') \<noteq> Some ''{}''"
  by (simp add: jsonMatch_def)

section \<open>The model client\<close>

lemma zodToJsonSchema_constant:
  "zodToJsonSchema schema = zodToJsonSchema (ZObject [])"
  by (simp add: zodToJsonSchema_def)

text \<open>
  Claim C1 says that the conversion of a tool's parameter schema into the parameters a
  backend is told is structural and lossless, and not the same empty schema for every
  input. The code does not do that: \<open>zodToJsonSchema\<close> returns the empty object schema
  for every schema, so the tool \<open>list_pull_requests\<close>, whose schema has a required
  string \<open>repo\<close> and an optional enum \<open>state\<close>, is declared to both backends with no
  properties and no required field, like a tool without parameters.
\<close>

theorem zodToJsonSchema_ignores_schema:
  "zodToJsonSchema schema
     = [(''type'', JString ''object''), (''properties'', JObject []), (''required'', JArray [])]
   \<and> zodToJsonSchema listPullRequestsSchema = zodToJsonSchema (ZObject [])
   \<and> def_parameters (toolToOpenAI listPullRequestsTool)
       = JObject [(''type'', JString ''object''), (''properties'', JObject []),
                  (''required'', JArray [])]
   \<and> input_schema (toolToAnthropic listPullRequestsTool)
       = JObject [(''type'', JString ''object''), (''properties'', JObject []),
                  (''required'', JArray [])]"
  by (simp add: zodToJsonSchema_def toolToOpenAI_def toolToAnthropic_def spread_def)

lemma streamOpenAI_no_client:
  "openaiClients self clientKey = None \<Longrightarrow>
     streamOpenAI js self options clientKey w = (\<lparr> yielded = [], thrown = None \<rparr>, w)"
  by (simp add: streamOpenAI_def)

lemma completeOpenAI_no_client:
  "openaiClients self clientKey = None \<Longrightarrow>
     completeOpenAI js self options clientKey w = (Inl (clientKey @ '' client not configured''), w)"
  by (simp add: completeOpenAI_def)

lemma streamAnthropic_no_client:
  "anthropicClient self = None \<Longrightarrow>
     streamAnthropic self options w = (\<lparr> yielded = [], thrown = None \<rparr>, w)"
  by (simp add: streamAnthropic_def)

lemma completeAnthropic_no_client:
  "anthropicClient self = None \<Longrightarrow>
     completeAnthropic self options w = (Inl ''Anthropic client not configured'', w)"
  by (simp add: completeAnthropic_def)

lemma streamComplete_no_client:
  assumes "streamProvider getModel (opt_model options) = Some p"
    and "\<not> clientConfigured self p"
  shows "streamComplete js getModel self options w = (\<lparr> yielded = [], thrown = None \<rparr>, w)"
  using assms
  by (cases p)
     (auto simp: streamProvider_def clientConfigured_def streamComplete_def
        streamOpenAI_no_client streamAnthropic_no_client
        split: option.splits if_splits ModelProvider.splits)

lemma complete_no_client:
  assumes "completeProvider getModel (opt_model options) = Some p"
    and "\<not> clientConfigured self p"
  shows "ModelClient_complete js getModel self options w
           = (Inl (clientLabel p @ '' client not configured''), w)"
  using assms
  by (cases p)
     (auto simp: completeProvider_def clientConfigured_def ModelClient_complete_def
        completeOpenAI_no_client completeAnthropic_no_client clientLabel_def providerName_def
        split: option.splits if_splits ModelProvider.splits)

text \<open>
  Claim C10. When no client is configured for the provider that is addressed,
  streaming does not fail: \<open>streamOpenAI\<close> and \<open>streamAnthropic\<close> yield no fragment and
  throw nothing, and so does \<open>streamComplete\<close> for a model it resolves to such a
  provider. In the same state \<open>completeOpenAI\<close> and \<open>completeAnthropic\<close> throw the
  error \<open>... client not configured\<close>, and so does \<open>complete\<close> for a model it resolves to
  such a provider. In each case the world is the one before the call: nothing was sent.
\<close>

theorem stream_without_client_is_empty:
  "(openaiClients self clientKey = None \<longrightarrow>
      streamOpenAI js self options clientKey w = (\<lparr> yielded = [], thrown = None \<rparr>, w)
      \<and> completeOpenAI js self options clientKey w
          = (Inl (clientKey @ '' client not configured''), w))
   \<and> (anthropicClient self = None \<longrightarrow>
      streamAnthropic self options w = (\<lparr> yielded = [], thrown = None \<rparr>, w)
      \<and> completeAnthropic self options w = (Inl ''Anthropic client not configured'', w))
   \<and> (streamProvider getModel (opt_model options) = Some p \<and> \<not> clientConfigured self p \<longrightarrow>
      streamComplete js getModel self options w = (\<lparr> yielded = [], thrown = None \<rparr>, w))
   \<and> (completeProvider getModel (opt_model options) = Some p \<and> \<not> clientConfigured self p \<longrightarrow>
      ModelClient_complete js getModel self options w
        = (Inl (clientLabel p @ '' client not configured''), w))"
  by (simp add: streamOpenAI_no_client completeOpenAI_no_client streamAnthropic_no_client
        completeAnthropic_no_client streamComplete_no_client complete_no_client)

theorem stream_without_client_is_empty_witness:
  "openaiClients (newModelClient :: unit ModelClient) ''openai'' = None
   \<and> anthropicClient (newModelClient :: unit ModelClient) = None
   \<and> streamProvider [''openai:gpt-4o'' \<mapsto> gpt4o] (opt_model askGpt4o) = Some OpenAI
   \<and> completeProvider [''openai:gpt-4o'' \<mapsto> gpt4o] (opt_model askGpt4o) = Some OpenAI
   \<and> \<not> clientConfigured (newModelClient :: unit ModelClient) OpenAI
   \<and> streamComplete exampleJSON [''openai:gpt-4o'' \<mapsto> gpt4o] newModelClient askGpt4o ()
       = (\<lparr> yielded = [], thrown = None \<rparr>, ())
   \<and> ModelClient_complete exampleJSON [''openai:gpt-4o'' \<mapsto> gpt4o] newModelClient askGpt4o ()
       = (Inl ''openai client not configured'', ())
   \<and> streamAnthropic newModelClient askGpt4o () = (\<lparr> yielded = [], thrown = None \<rparr>, ())
   \<and> completeAnthropic newModelClient askGpt4o () = (Inl ''Anthropic client not configured'', ())"
  using stream_without_client_is_empty
          [of "newModelClient :: unit ModelClient" "''openai''" exampleJSON askGpt4o "()"
              "[''openai:gpt-4o'' \<mapsto> gpt4o]" OpenAI]
  by (simp add: newModelClient_def askGpt4o_def gpt4o_def streamProvider_def
        completeProvider_def clientConfigured_def clientLabel_def providerName_def)


lemma toolCallsFromOpenAI_wire:
  assumes "list_all2 (\<lambda>tc a. JSON_parse js (JSON_stringify js (tc_arguments tc)) = Inr a) calls payloads"
  shows "toolCallsFromOpenAI js (map (toolCallToOpenAI js) calls)
           = Inr (map2 (\<lambda>tc a. tc \<lparr> tc_arguments := a \<rparr>) calls payloads)"
  using assms by (induction rule: list_all2_induct) (simp_all add: toolCallToOpenAI_def)

lemma wire_texts:
  "pathText \<noteq> repoText \<and> pathText \<noteq> limitNullText \<and> repoText \<noteq> limitNullText
   \<and> pathText \<noteq> ''{}'' \<and> repoText \<noteq> ''{}'' \<and> limitNullText \<noteq> ''{}''
   \<and> pathText \<noteq> ''null'' \<and> repoText \<noteq> ''null'' \<and> limitNullText \<noteq> ''null''"
  by (simp add: pathText_def repoText_def limitNullText_def quoted_def)

lemma wire_payloads:
  "JSON_parse wireJSON (JSON_stringify wireJSON (tc_arguments readNotes)) = Inr (tc_arguments readNotes)
   \<and> JSON_parse wireJSON (JSON_stringify wireJSON (tc_arguments listRepo)) = Inr (tc_arguments listRepo)
   \<and> JSON_parse wireJSON (JSON_stringify wireJSON (tc_arguments listLimit)) = Inr (JObject [(''limit'', JNull)])"
  using wire_texts by (auto simp: wireJSON_def readNotes_def listRepo_def listLimit_def)

lemma fromAnthropicBlocks_tool_use:
  "fromAnthropicBlocks (map (\<lambda>tc. ToolUseBlock (tc_id tc) (tc_name tc) (tc_arguments tc)) calls)
     text acc = (text, acc @ calls)"
  by (induction calls arbitrary: acc) simp_all

lemma fromAnthropicBlocks_assistant:
  "fromAnthropicBlocks
     ((if c = [] then [] else [TextBlock c])
      @ map (\<lambda>tc. ToolUseBlock (tc_id tc) (tc_name tc) (tc_arguments tc)) calls) [] []
   = (c, calls)"
  by (simp add: fromAnthropicBlocks_tool_use)


text \<open>
  Claim C9, as amended. For every assistant message that carries two tool calls: the
  message becomes one OpenAI assistant turn whose \<open>tool_calls\<close> have the two call ids and
  names; \<open>completeOpenAI\<close> reads back from these entries two calls with the original ids
  and names and, as argument payloads, what \<open>JSON.parse\<close> reads from what \<open>JSON.stringify\<close>
  wrote for the original payloads. So it reads exactly the two original calls back, also
  as part of a response, when \<open>JSON.parse\<close> reads both payloads back from what
  \<open>JSON.stringify\<close> writes for them. The message becomes one Anthropic assistant turn of
  content blocks, from which \<open>completeAnthropic\<close> reads exactly the two original calls
  (ids, names, argument payloads) and the original content back, for every payload.
\<close>

theorem tool_calls_round_trip:
  assumes "role msg = RoleAssistant" and "toolCalls msg = Some [tc1, tc2]"
  shows "(\<exists>c wire. messagesToOpenAI js [msg] = [AssistantToolCalls c wire]
            \<and> map call_id wire = [tc_id tc1, tc_id tc2]
            \<and> map (fn_name \<circ> call_function) wire = [tc_name tc1, tc_name tc2]
            \<and> (\<forall>a1 a2.
                  JSON_parse js (JSON_stringify js (tc_arguments tc1)) = Inr a1
                  \<and> JSON_parse js (JSON_stringify js (tc_arguments tc2)) = Inr a2 \<longrightarrow>
                  toolCallsFromOpenAI js wire
                    = Inr [tc1 \<lparr> tc_arguments := a1 \<rparr>, tc2 \<lparr> tc_arguments := a2 \<rparr>])
            \<and> (JSON_parse js (JSON_stringify js (tc_arguments tc1)) = Inr (tc_arguments tc1)
                \<and> JSON_parse js (JSON_stringify js (tc_arguments tc2)) = Inr (tc_arguments tc2)
                \<longrightarrow>
                toolCallsFromOpenAI js wire = Inr [tc1, tc2]
                \<and> (\<forall>(response :: OpenAIResponse) choice others.
                      choices response = choice # others
                      \<and> msg_tool_calls (choice_message choice) = Some wire \<longrightarrow>
                      (\<exists>r. responseFromOpenAI js response = Inr r
                            \<and> resp_toolCalls r = Some [tc1, tc2]))))
       \<and> (\<exists>blocks. messagesToAnthropic [msg]
                      = \<lparr> system = None,
                          messages = [\<lparr> am_role = RoleAssistant,
                                        am_content = BlockContent blocks \<rparr>] \<rparr>
            \<and> (\<forall>response :: AnthropicResponse. response_content response = blocks \<longrightarrow>
                  resp_toolCalls (responseFromAnthropic response) = Some [tc1, tc2]
                  \<and> resp_content (responseFromAnthropic response) = content msg))"
proof (intro conjI)
  let ?wire = "map (toolCallToOpenAI js) [tc1, tc2]"
  have m: "messagesToOpenAI js [msg]
             = [AssistantToolCalls (if content msg = [] then None else Some (content msg)) ?wire]"
    using assms by (simp add: messagesToOpenAI_def messageToOpenAI_def)
  have ids: "map call_id ?wire = [tc_id tc1, tc_id tc2]"
    and names: "map (fn_name \<circ> call_function) ?wire = [tc_name tc1, tc_name tc2]"
    by (simp_all add: toolCallToOpenAI_def)
  have wire: "toolCallsFromOpenAI js ?wire
                = Inr [tc1 \<lparr> tc_arguments := a1 \<rparr>, tc2 \<lparr> tc_arguments := a2 \<rparr>]"
    if "JSON_parse js (JSON_stringify js (tc_arguments tc1)) = Inr a1"
      and "JSON_parse js (JSON_stringify js (tc_arguments tc2)) = Inr a2"
    for a1 a2
    using that toolCallsFromOpenAI_wire [of js "[tc1, tc2]" "[a1, a2]"] by simp
  have again: "toolCallsFromOpenAI js ?wire = Inr [tc1, tc2]"
    if "JSON_parse js (JSON_stringify js (tc_arguments tc1)) = Inr (tc_arguments tc1)"
      and "JSON_parse js (JSON_stringify js (tc_arguments tc2)) = Inr (tc_arguments tc2)"
    using wire [OF that] by simp
  have resp: "\<exists>r. responseFromOpenAI js response = Inr r \<and> resp_toolCalls r = Some [tc1, tc2]"
    if "toolCallsFromOpenAI js ?wire = Inr [tc1, tc2]"
      and "choices response = choice # others"
      and "msg_tool_calls (choice_message choice) = Some ?wire"
    for response :: OpenAIResponse and choice others
    using that by (simp add: responseFromOpenAI_def)
  show "\<exists>c wire. messagesToOpenAI js [msg] = [AssistantToolCalls c wire]
            \<and> map call_id wire = [tc_id tc1, tc_id tc2]
            \<and> map (fn_name \<circ> call_function) wire = [tc_name tc1, tc_name tc2]
            \<and> (\<forall>a1 a2.
                  JSON_parse js (JSON_stringify js (tc_arguments tc1)) = Inr a1
                  \<and> JSON_parse js (JSON_stringify js (tc_arguments tc2)) = Inr a2 \<longrightarrow>
                  toolCallsFromOpenAI js wire
                    = Inr [tc1 \<lparr> tc_arguments := a1 \<rparr>, tc2 \<lparr> tc_arguments := a2 \<rparr>])
            \<and> (JSON_parse js (JSON_stringify js (tc_arguments tc1)) = Inr (tc_arguments tc1)
                \<and> JSON_parse js (JSON_stringify js (tc_arguments tc2)) = Inr (tc_arguments tc2)
                \<longrightarrow>
                toolCallsFromOpenAI js wire = Inr [tc1, tc2]
                \<and> (\<forall>(response :: OpenAIResponse) choice others.
                      choices response = choice # others
                      \<and> msg_tool_calls (choice_message choice) = Some wire \<longrightarrow>
                      (\<exists>r. responseFromOpenAI js response = Inr r
                            \<and> resp_toolCalls r = Some [tc1, tc2])))"
  proof (rule exI [of _ "if content msg = [] then None else Some (content msg)"],
         rule exI [of _ ?wire], intro conjI allI impI)
    show "messagesToOpenAI js [msg]
            = [AssistantToolCalls (if content msg = [] then None else Some (content msg)) ?wire]"
      by (rule m)
    show "map call_id ?wire = [tc_id tc1, tc_id tc2]"
      by (rule ids)
    show "map (fn_name \<circ> call_function) ?wire = [tc_name tc1, tc_name tc2]"
      by (rule names)
  next
    fix a1 a2
    assume "JSON_parse js (JSON_stringify js (tc_arguments tc1)) = Inr a1
            \<and> JSON_parse js (JSON_stringify js (tc_arguments tc2)) = Inr a2"
    then show "toolCallsFromOpenAI js ?wire
                 = Inr [tc1 \<lparr> tc_arguments := a1 \<rparr>, tc2 \<lparr> tc_arguments := a2 \<rparr>]"
      using wire [of a1 a2] by simp
  next
    assume h: "JSON_parse js (JSON_stringify js (tc_arguments tc1)) = Inr (tc_arguments tc1)
               \<and> JSON_parse js (JSON_stringify js (tc_arguments tc2)) = Inr (tc_arguments tc2)"
    then show exact: "toolCallsFromOpenAI js ?wire = Inr [tc1, tc2]"
      using again by simp
    fix response :: OpenAIResponse and choice others
    assume "choices response = choice # others
            \<and> msg_tool_calls (choice_message choice) = Some ?wire"
    then show "\<exists>r. responseFromOpenAI js response = Inr r \<and> resp_toolCalls r = Some [tc1, tc2]"
      using resp [OF exact, of response choice others] by simp
  qed
next
  let ?blocks = "(if content msg = [] then [] else [TextBlock (content msg)])
                 @ map (\<lambda>tc. ToolUseBlock (tc_id tc) (tc_name tc) (tc_arguments tc)) [tc1, tc2]"
  have m: "messagesToAnthropic [msg]
             = \<lparr> system = None,
                 messages = [\<lparr> am_role = RoleAssistant, am_content = BlockContent ?blocks \<rparr>] \<rparr>"
    using assms by (simp add: messagesToAnthropic_def)
  have again: "fromAnthropicBlocks ?blocks [] [] = (content msg, [tc1, tc2])"
    by (rule fromAnthropicBlocks_assistant)
  have resp: "resp_toolCalls (responseFromAnthropic response) = Some [tc1, tc2]
              \<and> resp_content (responseFromAnthropic response) = content msg"
    if "response_content response = ?blocks" for response :: AnthropicResponse
    using that again by (simp add: responseFromAnthropic_def)
  show "\<exists>blocks. messagesToAnthropic [msg]
                      = \<lparr> system = None,
                          messages = [\<lparr> am_role = RoleAssistant,
                                        am_content = BlockContent blocks \<rparr>] \<rparr>
            \<and> (\<forall>response :: AnthropicResponse. response_content response = blocks \<longrightarrow>
                  resp_toolCalls (responseFromAnthropic response) = Some [tc1, tc2]
                  \<and> resp_content (responseFromAnthropic response) = content msg)"
  proof (rule exI [of _ ?blocks], intro conjI allI impI)
    show "messagesToAnthropic [msg]
            = \<lparr> system = None,
                messages = [\<lparr> am_role = RoleAssistant, am_content = BlockContent ?blocks \<rparr>] \<rparr>"
      by (rule m)
    fix response :: AnthropicResponse
    assume r: "response_content response = ?blocks"
    show "resp_toolCalls (responseFromAnthropic response) = Some [tc1, tc2]"
      using resp [OF r] by simp
    show "resp_content (responseFromAnthropic response) = content msg"
      using resp [OF r] by simp
  qed
qed

theorem tool_calls_round_trip_witness:
  "role twoCallsMessage = RoleAssistant
   \<and> toolCalls twoCallsMessage = Some [readNotes, listRepo]
   \<and> tc_arguments readNotes \<noteq> tc_arguments listRepo
   \<and> JSON_parse wireJSON (JSON_stringify wireJSON (tc_arguments readNotes))
       = Inr (tc_arguments readNotes)
   \<and> JSON_parse wireJSON (JSON_stringify wireJSON (tc_arguments listRepo))
       = Inr (tc_arguments listRepo)
   \<and> (\<exists>c wire. messagesToOpenAI wireJSON [twoCallsMessage] = [AssistantToolCalls c wire]
          \<and> map call_id wire = [''call_1'', ''call_2'']
          \<and> toolCallsFromOpenAI wireJSON wire = Inr [readNotes, listRepo])
   \<and> (\<exists>blocks. messagesToAnthropic [twoCallsMessage]
                   = \<lparr> system = None,
                       messages = [\<lparr> am_role = RoleAssistant,
                                     am_content = BlockContent blocks \<rparr>] \<rparr>)"
proof -
  have h1: "role twoCallsMessage = RoleAssistant"
    and h2: "toolCalls twoCallsMessage = Some [readNotes, listRepo]"
    by (simp_all add: twoCallsMessage_def)
  have h3: "JSON_parse wireJSON (JSON_stringify wireJSON (tc_arguments readNotes))
              = Inr (tc_arguments readNotes)"
    and h4: "JSON_parse wireJSON (JSON_stringify wireJSON (tc_arguments listRepo))
              = Inr (tc_arguments listRepo)"
    using wire_payloads by simp_all
  have differ: "tc_arguments readNotes \<noteq> tc_arguments listRepo"
    by (simp add: readNotes_def listRepo_def)
  have ids: "tc_id readNotes = ''call_1''" "tc_id listRepo = ''call_2''"
    by (simp_all add: readNotes_def listRepo_def)
  note round_trip = tool_calls_round_trip [OF h1 h2, of wireJSON]
  from round_trip obtain c wire where
    m: "messagesToOpenAI wireJSON [twoCallsMessage] = [AssistantToolCalls c wire]"
    and i: "map call_id wire = [tc_id readNotes, tc_id listRepo]"
    and e: "JSON_parse wireJSON (JSON_stringify wireJSON (tc_arguments readNotes))
              = Inr (tc_arguments readNotes)
            \<and> JSON_parse wireJSON (JSON_stringify wireJSON (tc_arguments listRepo))
              = Inr (tc_arguments listRepo)
            \<longrightarrow> toolCallsFromOpenAI wireJSON wire = Inr [readNotes, listRepo]
                \<and> (\<forall>(response :: OpenAIResponse) choice others.
                      choices response = choice # others
                      \<and> msg_tool_calls (choice_message choice) = Some wire \<longrightarrow>
                      (\<exists>r. responseFromOpenAI wireJSON response = Inr r
                            \<and> resp_toolCalls r = Some [readNotes, listRepo]))"
    apply (elim conjE exE)
    apply (rule that)
      apply assumption+
    done
  from e h3 h4 have t: "toolCallsFromOpenAI wireJSON wire = Inr [readNotes, listRepo]"
    by simp
  from m i t have openai:
    "\<exists>c wire. messagesToOpenAI wireJSON [twoCallsMessage] = [AssistantToolCalls c wire]
          \<and> map call_id wire = [''call_1'', ''call_2'']
          \<and> toolCallsFromOpenAI wireJSON wire = Inr [readNotes, listRepo]"
    unfolding ids by (intro exI [of _ c] exI [of _ wire]) simp
  from round_trip obtain blocks where
    b: "messagesToAnthropic [twoCallsMessage]
       = \<lparr> system = None,
           messages = [\<lparr> am_role = RoleAssistant, am_content = BlockContent blocks \<rparr>] \<rparr>"
    and r: "\<forall>response :: AnthropicResponse. response_content response = blocks \<longrightarrow>
            resp_toolCalls (responseFromAnthropic response) = Some [readNotes, listRepo]
            \<and> resp_content (responseFromAnthropic response) = content twoCallsMessage"
    apply (elim conjE exE)
    apply (rule that)
     apply assumption+
    done
  from b have anthropic:
    "\<exists>blocks. messagesToAnthropic [twoCallsMessage]
                   = \<lparr> system = None,
                       messages = [\<lparr> am_role = RoleAssistant,
                                     am_content = BlockContent blocks \<rparr>] \<rparr>"
    by (intro exI [of _ blocks])
  from h1 h2 differ h3 h4 openai anthropic show ?thesis
    by (intro conjI)
qed

text \<open>
  The claim as stated fails on the OpenAI path for a payload that \<open>JSON\<close> does not read
  back: the payload \<open>{ limit: Infinity }\<close> is written as the text of \<open>{ limit: null }\<close>, and
  the call read back carries \<open>null\<close>.
\<close>

theorem lossy_payload_counterexample:
  "role lossyMessage = RoleAssistant
   \<and> toolCalls lossyMessage = Some [readNotes, listLimit]
   \<and> messagesToOpenAI wireJSON [lossyMessage]
       = [AssistantToolCalls (Some ''Let me look.'')
            [\<lparr> call_id = ''call_1'', call_type = ''function'',
               call_function = \<lparr> fn_name = ''read_file'', fn_arguments = pathText \<rparr> \<rparr>,
             \<lparr> call_id = ''call_2'', call_type = ''function'',
               call_function =
                 \<lparr> fn_name = ''list_pull_requests'', fn_arguments = limitNullText \<rparr> \<rparr>]]
   \<and> toolCallsFromOpenAI wireJSON
         [\<lparr> call_id = ''call_1'', call_type = ''function'',
            call_function = \<lparr> fn_name = ''read_file'', fn_arguments = pathText \<rparr> \<rparr>,
          \<lparr> call_id = ''call_2'', call_type = ''function'',
            call_function =
              \<lparr> fn_name = ''list_pull_requests'', fn_arguments = limitNullText \<rparr> \<rparr>]
       = Inr [readNotes, listLimit \<lparr> tc_arguments := JObject [(''limit'', JNull)] \<rparr>]
   \<and> tc_arguments listLimit = JObject [(''limit'', JInfinity)]
   \<and> tc_arguments listLimit \<noteq> JObject [(''limit'', JNull)]"
  using wire_texts
  by (auto simp: lossyMessage_def messagesToOpenAI_def messageToOpenAI_def toolCallToOpenAI_def
        wireJSON_def readNotes_def listLimit_def)
section \<open>The execution engine\<close>



lemma executeTool_escapes:
  assumes "executeTool self tc w = (Inl e, w')"
  shows "e \<in> set nullishErrors
         \<and> (\<exists>tool. map_of (agent_tools self) (tc_name tc) = Some tool \<and> throwsNullish tool)"
proof -
  from assms obtain tool where t: "map_of (agent_tools self) (tc_name tc) = Some tool"
    by (cases "map_of (agent_tools self) (tc_name tc)") (auto simp: executeTool_def)
  obtain outcome w1 where x: "tool_execute tool (tc_arguments tc) w = (outcome, w1)"
    by (cases "tool_execute tool (tc_arguments tc) w")
  from assms t x obtain thrown where o: "outcome = Inl thrown"
    by (cases outcome) (auto simp: executeTool_def)
  from assms t x o have "thrown = ThrownNull \<or> thrown = ThrownUndefined"
    by (cases thrown) (auto simp: executeTool_def errorMessage_def)
  then have "throwsNullish tool"
    unfolding throwsNullish_def using x o
    by (intro exI [of _ "tc_arguments tc"] exI [of _ w]) auto
  moreover from assms t x o have "e \<in> set nullishErrors"
    by (cases thrown) (auto simp: executeTool_def errorMessage_def nullishErrors_def)
  ultimately show ?thesis
    using t by simp
qed

lemma executeTool_returns:
  assumes "\<forall>tool. map_of (agent_tools self) (tc_name tc) = Some tool \<longrightarrow> \<not> throwsNullish tool"
  shows "\<exists>r w'. executeTool self tc w = (Inr r, w')"
proof (cases "executeTool self tc w")
  case (Pair outcome w')
  show ?thesis
  proof (cases outcome)
    case (Inl e)
    with Pair assms executeTool_escapes [of self tc w e w'] show ?thesis
      by auto
  next
    case (Inr r)
    with Pair show ?thesis
      by simp
  qed
qed

lemma escapes_nullish:
  "escapes self calls w = Some e \<Longrightarrow>
     e \<in> set nullishErrors \<and> (\<exists>tool \<in> snd ` set (agent_tools self). throwsNullish tool)"
proof (induction calls arbitrary: w)
  case Nil
  then show ?case by simp
next
  case (Cons tc calls)
  obtain outcome w' where x: "executeTool self tc w = (outcome, w')"
    by (cases "executeTool self tc w")
  show ?case
  proof (cases outcome)
    case (Inl e')
    with x Cons.prems have "e' = e"
      by simp
    with x Inl obtain tool where "map_of (agent_tools self) (tc_name tc) = Some tool"
      and "throwsNullish tool" and "e \<in> set nullishErrors"
      using executeTool_escapes [of self tc w e w'] by auto
    moreover from this(1) have "tool \<in> snd ` set (agent_tools self)"
      by (auto dest: map_of_SomeD intro: rev_image_eqI)
    ultimately show ?thesis
      by auto
  next
    case (Inr r)
    with x Cons.prems have "escapes self calls w' = Some e"
      by simp
    then show ?thesis
      by (rule Cons.IH)
  qed
qed

lemma escapes_none:
  "\<forall>tool \<in> snd ` set (agent_tools self). \<not> throwsNullish tool \<Longrightarrow>
     escapes self calls w = None"
  using escapes_nullish [of self calls w] by (cases "escapes self calls w") auto

lemma sequentialResults_length_le:
  "length (fst (sequentialResults self calls w)) \<le> length calls"
proof (induction calls arbitrary: w)
  case Nil
  show ?case by simp
next
  case (Cons tc calls)
  obtain outcome w' where x: "executeTool self tc w = (outcome, w')"
    by (cases "executeTool self tc w")
  show ?case
    using x Cons.IH [of w'] by (cases outcome) (auto split: prod.splits)
qed

lemma sequentialResults_length:
  "escapes self calls w = None \<Longrightarrow>
     length (fst (sequentialResults self calls w)) = length calls"
proof (induction calls arbitrary: w)
  case Nil
  show ?case by simp
next
  case (Cons tc calls)
  obtain outcome w' where x: "executeTool self tc w = (outcome, w')"
    by (cases "executeTool self tc w")
  show ?case
    using x Cons.prems Cons.IH [of w'] by (cases outcome) (auto split: prod.splits)
qed

lemma messagePairs_Cons:
  "messagePairs c (tc # calls) (r # rs)
     = assistantMessage c tc # toolMessage r # messagePairs c calls rs"
  by (simp add: messagePairs_def)

lemma messagePairs_none:
  "messagePairs c calls [] = []"
  by (simp add: messagePairs_def)

lemma messagePairs_length:
  "length rs \<le> length calls \<Longrightarrow> length (messagePairs c calls rs) = 2 * length rs"
proof (induction calls rs rule: list_induct2')
  case (4 tc calls r rs)
  then show ?case by (simp add: messagePairs_Cons)
qed (simp_all add: messagePairs_def)

lemma execute_toolCalls_pairs:
  "execute_toolCalls self c calls msgs w
     = ((case escapes self calls w of
           None \<Rightarrow> Inr (msgs @ messagePairs c calls (fst (sequentialResults self calls w)))
         | Some e \<Rightarrow>
             Inl (e, msgs @ messagePairs c calls (fst (sequentialResults self calls w)))),
        snd (sequentialResults self calls w))"
proof (induction calls arbitrary: msgs w)
  case Nil
  show ?case by (simp add: messagePairs_def)
next
  case (Cons tc calls)
  obtain outcome w' where x: "executeTool self tc w = (outcome, w')"
    by (cases "executeTool self tc w")
  show ?case
  proof (cases outcome)
    case (Inl e)
    with x show ?thesis
      by (simp add: messagePairs_none)
  next
    case (Inr r)
    with x show ?thesis
      using Cons.IH [of "msgs @ [assistantMessage c tc, toolMessage r]" w']
      by (auto simp: messagePairs_Cons split: prod.splits option.splits)
  qed
qed

lemma execute_toolCalls_returns:
  "escapes self calls w = None \<Longrightarrow>
   execute_toolCalls self c calls msgs w
     = (Inr (msgs @ messagePairs c calls (fst (sequentialResults self calls w))),
        snd (sequentialResults self calls w))"
  by (simp add: execute_toolCalls_pairs)

lemma execute_loop_step:
  assumes "iterations < maxIterations"
    and "getCompletion mc self msgs w = (Inr response, w1)"
    and "resp_toolCalls response = Some (tc # rest)"
    and "escapes self (tc # rest) w1 = None"
  shows "execute_loop mc self task msgs iterations requested w
           = execute_loop mc self task
               (msgs @ messagePairs (resp_content response) (tc # rest)
                         (fst (sequentialResults self (tc # rest) w1)))
               (iterations + 1) (requested @ [Inr response])
               (snd (sequentialResults self (tc # rest) w1))"
  by (subst execute_loop.simps)
     (simp add: assms execute_toolCalls_returns
        del: execute_toolCalls.simps sequentialResults.simps escapes.simps)










text \<open>
  Claim C2, as amended. For every completion response that carries \<open>n \<ge> 1\<close> tool calls
  whose dispatches all return, the engine runs the calls in order and appends, for each
  call, one assistant message with the response content and that one call, followed at
  once by one tool message with the output or error of the call's result and the result
  itself: \<open>2 * n\<close> messages, one pair of assistant and tool message for every call,
  before the next iteration. For a single call that is one assistant message and one
  tool message. In general the pairs of the calls before the first one on which
  \<open>executeTool\<close> throws are appended, and the error then leaves the loop.
\<close>

theorem tool_calls_append_one_pair_each:
  "execute_toolCalls self c calls msgs w1
     = ((case escapes self calls w1 of
           None \<Rightarrow> Inr (msgs @ messagePairs c calls (fst (sequentialResults self calls w1)))
         | Some e \<Rightarrow>
             Inl (e, msgs @ messagePairs c calls (fst (sequentialResults self calls w1)))),
        snd (sequentialResults self calls w1))
   \<and> length (messagePairs c calls (fst (sequentialResults self calls w1)))
       = 2 * length (fst (sequentialResults self calls w1))
   \<and> (escapes self calls w1 = None \<longrightarrow>
        length (fst (sequentialResults self calls w1)) = length calls
        \<and> execute_toolCalls self c calls msgs w1
            = (Inr (msgs @ messagePairs c calls (fst (sequentialResults self calls w1))),
               snd (sequentialResults self calls w1))
        \<and> length (messagePairs c calls (fst (sequentialResults self calls w1)))
            = 2 * length calls
        \<and> (calls = [toolCall] \<longrightarrow>
             (\<exists>result. messagePairs c calls (fst (sequentialResults self calls w1))
                         = [assistantMessage c toolCall, toolMessage result]))
        \<and> (iterations < maxIterations
             \<and> getCompletion mc self msgs w = (Inr response, w1)
             \<and> resp_toolCalls response = Some calls \<and> calls \<noteq> []
             \<and> c = resp_content response \<longrightarrow>
             execute_loop mc self task msgs iterations requested w
               = execute_loop mc self task
                   (msgs @ messagePairs c calls (fst (sequentialResults self calls w1)))
                   (iterations + 1) (requested @ [Inr response])
                   (snd (sequentialResults self calls w1))))"
proof (intro conjI impI)
  show "execute_toolCalls self c calls msgs w1
     = ((case escapes self calls w1 of
           None \<Rightarrow> Inr (msgs @ messagePairs c calls (fst (sequentialResults self calls w1)))
         | Some e \<Rightarrow>
             Inl (e, msgs @ messagePairs c calls (fst (sequentialResults self calls w1)))),
        snd (sequentialResults self calls w1))"
    by (rule execute_toolCalls_pairs)
  show "length (messagePairs c calls (fst (sequentialResults self calls w1)))
       = 2 * length (fst (sequentialResults self calls w1))"
    by (rule messagePairs_length) (rule sequentialResults_length_le)
next
  assume none: "escapes self calls w1 = None"
  then show all: "length (fst (sequentialResults self calls w1)) = length calls"
    by (rule sequentialResults_length)
  from none show "execute_toolCalls self c calls msgs w1
            = (Inr (msgs @ messagePairs c calls (fst (sequentialResults self calls w1))),
               snd (sequentialResults self calls w1))"
    by (rule execute_toolCalls_returns)
  show "length (messagePairs c calls (fst (sequentialResults self calls w1)))
            = 2 * length calls"
    using all by (simp add: messagePairs_length)
next
  assume none: "escapes self calls w1 = None" and one: "calls = [toolCall]"
  obtain outcome w' where x: "executeTool self toolCall w1 = (outcome, w')"
    by (cases "executeTool self toolCall w1")
  with none one obtain r where "outcome = Inr r"
    by (cases outcome) simp_all
  with x one show "\<exists>result. messagePairs c calls (fst (sequentialResults self calls w1))
                    = [assistantMessage c toolCall, toolMessage result]"
    by (auto simp: messagePairs_def)
next
  assume none: "escapes self calls w1 = None"
    and h: "iterations < maxIterations
        \<and> getCompletion mc self msgs w = (Inr response, w1)
        \<and> resp_toolCalls response = Some calls \<and> calls \<noteq> [] \<and> c = resp_content response"
  then obtain tc rest where "calls = tc # rest"
    by (cases calls) auto
  with h none show "execute_loop mc self task msgs iterations requested w
          = execute_loop mc self task
              (msgs @ messagePairs c calls (fst (sequentialResults self calls w1)))
              (iterations + 1) (requested @ [Inr response])
              (snd (sequentialResults self calls w1))"
    using execute_loop_step [of iterations mc self msgs w response w1 tc rest task requested]
    by simp
qed

lemma two_calls_example:
  "getCompletion (calling [readA, readB]) (agentWith []) [] ()
     = (Inr (toolsResponse [readA, readB]), ())
   \<and> sequentialResults (agentWith []) [readA, readB] ()
       = ([unknownToolResult readA, unknownToolResult readB], ())
   \<and> escapes (agentWith []) [readA, readB] () = None
   \<and> escapes (agentWith []) [readA] () = None"
  by (simp add: getCompletion_def calling_def agentWith_def executeTool_def
        unknownToolResult_def)

theorem tool_calls_append_one_pair_each_witness:
  "(0 :: nat) < maxIterations
   \<and> escapes (agentWith []) [readA, readB] () = None
   \<and> getCompletion (calling [readA, readB]) (agentWith []) [] ()
       = (Inr (toolsResponse [readA, readB]), ())
   \<and> resp_toolCalls (toolsResponse [readA, readB]) = Some [readA, readB]
   \<and> execute_toolCalls (agentWith []) ''Let me look.'' [readA, readB] [] ()
       = (Inr [assistantMessage ''Let me look.'' readA, toolMessage (unknownToolResult readA),
               assistantMessage ''Let me look.'' readB, toolMessage (unknownToolResult readB)], ())
   \<and> execute_loop (calling [readA, readB]) (agentWith []) exampleTask [] 0 [] ()
       = execute_loop (calling [readA, readB]) (agentWith []) exampleTask
           [assistantMessage ''Let me look.'' readA, toolMessage (unknownToolResult readA),
            assistantMessage ''Let me look.'' readB, toolMessage (unknownToolResult readB)]
           1 [Inr (toolsResponse [readA, readB])] ()
   \<and> (\<exists>result. messagePairs ''Let me look.'' [readA]
                      (fst (sequentialResults (agentWith []) [readA] ()))
                    = [assistantMessage ''Let me look.'' readA, toolMessage result])"
  using tool_calls_append_one_pair_each
          [of "agentWith []" "''Let me look.''" "[readA, readB]" "[]" "()" readA 0
              "calling [readA, readB]" "()" "toolsResponse [readA, readB]" exampleTask "[]"]
        tool_calls_append_one_pair_each
          [of "agentWith []" "''Let me look.''" "[readA]" "[]" "()" readA]
        two_calls_example
  by (simp add: messagePairs_def toolsResponse_def maxIterations_def)

text \<open>
  The claim as stated fails on a response with two tool calls: two assistant messages
  are appended, each with one of the calls, and none with both.
\<close>

theorem one_assistant_message_counterexample:
  "fst (execute_toolCalls (agentWith []) ''Let me look.'' [readA, readB] [] ())
     = Inr [\<lparr> role = RoleAssistant, content = ''Let me look.'',
               toolCalls = Some [readA], toolResults = None \<rparr>,
            toolMessage (unknownToolResult readA),
            \<lparr> role = RoleAssistant, content = ''Let me look.'',
               toolCalls = Some [readB], toolResults = None \<rparr>,
            toolMessage (unknownToolResult readB)]
   \<and> fst (execute_toolCalls (agentWith []) ''Let me look.'' [readA, readB] [] ())
     \<noteq> Inr [\<lparr> role = RoleAssistant, content = ''Let me look.'',
               toolCalls = Some [readA, readB], toolResults = None \<rparr>,
            toolMessage (unknownToolResult readA),
            toolMessage (unknownToolResult readB)]"
  by (simp add: agentWith_def executeTool_def unknownToolResult_def assistantMessage_def)





text \<open>
  Behind a tool whose promise is rejected with \<open>null\<close> the \<open>catch\<close> block of \<open>executeTool\<close>
  throws itself: no message is appended for the call, and \<open>execute\<close> ends after one
  completion with the failed result that carries the \<open>TypeError\<close>.
\<close>

lemma rejected_promise_example:
  "executeTool (agentWith [rejectingTool]) readA ()
     = (Inl ''Cannot read properties of null (reading 'message')'', ())
   \<and> execute_toolCalls (agentWith [rejectingTool]) ''Let me look.'' [readA] [] ()
       = (Inl (''Cannot read properties of null (reading 'message')'', []), ())
   \<and> length (completions (execute (calling [readA]) (agentWith [rejectingTool]) exampleTask ()))
       = 1
   \<and> returned (execute (calling [readA]) (agentWith [rejectingTool]) exampleTask ())
       = (failedWith ''Cannot read properties of null (reading 'message')'',
          exampleTask\<lparr> status := Failed,
            task_result :=
              Some (failedWith ''Cannot read properties of null (reading 'message')'') \<rparr>)"
  by code_simp

end
